theory Spec2Isabelle
  imports
    Complex_Main
    "HOL-Library.Char_ord"
    "HOL-Library.List_Lexorder"
    "HOL-Library.Product_Lexorder"
    "HOL-Library.Option_ord"
    "HOL-Library.Multiset"
begin

section \<open>The expense store of \<^verbatim>\<open>main.py\<close>\<close>

text \<open>
  \<^verbatim>\<open>main.py\<close> keeps one SQLite table, \<^verbatim>\<open>expenses\<close>, and exposes six tools over it
  (\<^verbatim>\<open>add_expense\<close>, \<^verbatim>\<open>list_expenses\<close>, \<^verbatim>\<open>summarize\<close>, \<^verbatim>\<open>get_expense\<close>,
  \<^verbatim>\<open>edit_expense\<close>, \<^verbatim>\<open>delete_expense\<close>) and the start-up routine \<^verbatim>\<open>init_db\<close>.
  Each tool opens a connection, runs one statement, and returns a Python value; every
  exception raised inside is caught by \<^verbatim>\<open>except Exception as e\<close> and turned into a
  dictionary. The embedding keeps that structure: a tool's body returns either the
  exception or its result, and the tool itself applies the handler.

  Conventions of the embedding:
  \<^item> a Python \<^verbatim>\<open>str\<close> and an SQLite TEXT value are the list of their UTF-8 bytes; the
    order on them is the byte-wise lexicographic one, which is SQLite's BINARY collation;
  \<^item> a Python \<^verbatim>\<open>float\<close> and an SQLite REAL value are a \<open>double\<close>: the real number it
    denotes, or an infinity; NaN is a separate value of a Python number, since SQLite
    stores it as NULL. No arithmetic on doubles is defined here: the only one the code
    asks for is SQLite's \<^verbatim>\<open>SUM\<close>, which is a parameter \<open>sql_sum\<close> of \<^verbatim>\<open>summarize\<close>;
  \<^item> \<^verbatim>\<open>None\<close> and SQL NULL are \<open>None\<close> of an option type;
  \<^item> arguments have the types the data model gives them: text for the dates, the
    category, the subcategory and the note, a Python number (\<^verbatim>\<open>int\<close> or \<^verbatim>\<open>float\<close>) for
    the amount, a Python \<^verbatim>\<open>int\<close> for the id. The driver's binding of a number and the
    REAL affinity of the \<^verbatim>\<open>amount\<close> column are part of the embedding.
\<close>

subsection \<open>Numbers\<close>

text \<open>
  The values of an IEEE double other than NaN. \<open>Finite x\<close> stands for a double when \<open>x\<close>
  is a number a double can hold; the two zeros of a double are one value here, as they
  are equal in Python and in SQLite.
\<close>

datatype double = MinusInf | Finite real | PlusInf

instantiation double :: linorder
begin

fun less_eq_double :: "double \<Rightarrow> double \<Rightarrow> bool" where
  "less_eq_double MinusInf y = True"
| "less_eq_double (Finite x) MinusInf = False"
| "less_eq_double (Finite x) (Finite y) = (x \<le> y)"
| "less_eq_double (Finite x) PlusInf = True"
| "less_eq_double PlusInf MinusInf = False"
| "less_eq_double PlusInf (Finite y) = False"
| "less_eq_double PlusInf PlusInf = True"

definition less_double :: "double \<Rightarrow> double \<Rightarrow> bool" where
  "less_double x y \<longleftrightarrow> x \<le> y \<and> \<not> y \<le> x"

instance
proof
  fix x y z :: double
  show "x < y \<longleftrightarrow> x \<le> y \<and> \<not> y \<le> x"
    by (simp add: less_double_def)
  show "x \<le> x"
    by (cases x) simp_all
  show "x \<le> y \<Longrightarrow> y \<le> z \<Longrightarrow> x \<le> z"
    by (cases x; cases y; cases z) simp_all
  show "x \<le> y \<Longrightarrow> y \<le> x \<Longrightarrow> x = y"
    by (cases x; cases y) simp_all
  show "x \<le> y \<or> y \<le> x"
    by (cases x; cases y) auto
qed

end

text \<open>A Python number as the caller passes it for an amount.\<close>

datatype number = Py_int int | Py_float double | Py_nan

text \<open>
  The C conversion \<^verbatim>\<open>(double)i\<close> of a 64-bit integer, as an integer: a magnitude below
  \<open>2^53\<close> is kept, a larger one is rounded to 53 significant bits, to the nearest and to
  the even one of two neighbours at equal distance.
\<close>

function lost_bits :: "int \<Rightarrow> nat" where
  "lost_bits a = (if a < 2 ^ 53 then 0 else Suc (lost_bits (a div 2)))"
  by pat_completeness auto
termination
  by (relation "measure nat") auto

definition round_to_double :: "int \<Rightarrow> int" where
  "round_to_double i =
     (let a = \<bar>i\<bar>; e = lost_bits a; q = a div 2 ^ e; r = a mod 2 ^ e;
          q' = (if 2 ^ e < 2 * r \<or> (2 * r = 2 ^ e \<and> odd q) then q + 1 else q)
      in sgn i * (q' * 2 ^ e))"

subsection \<open>Python values\<close>

text \<open>The values the tools return: \<^verbatim>\<open>dict\<close> keeps insertion order, as in Python.\<close>

datatype pyval =
    PNone
  | PInt int
  | PFloat double
  | PStr string
  | PList "pyval list"
  | PDict "(string \<times> pyval) list"

text \<open>
  The exceptions that reach a handler, by their Python class; \<open>str\<close> is \<^verbatim>\<open>str(e)\<close>.
\<close>

datatype exn =
    IntegrityError string
  | OperationalError string
  | OverflowError string

fun str :: "exn \<Rightarrow> string" where
  "str (IntegrityError m) = m"
| "str (OperationalError m) = m"
| "str (OverflowError m) = m"

text \<open>A parameter with a default value: the caller leaves it out or gives it.\<close>

datatype 'a arg = Omitted | Given 'a

fun param :: "'a \<Rightarrow> 'a arg \<Rightarrow> 'a" where
  "param dflt Omitted = dflt"
| "param dflt (Given v) = v"

text \<open>\<^verbatim>\<open>str(n)\<close> for an integer, used by the f-strings of the not-found messages.\<close>

definition digit_char :: "nat \<Rightarrow> char" where
  "digit_char n = ''0123456789'' ! n"

function str_nat :: "nat \<Rightarrow> string" where
  "str_nat n = (if n < 10 then [digit_char n] else str_nat (n div 10) @ [digit_char (n mod 10)])"
  by pat_completeness auto
termination
  by (relation "measure (\<lambda>n. n)") auto

definition str_int :: "int \<Rightarrow> string" where
  "str_int i = (if i < 0 then CHR ''-'' # str_nat (nat (- i)) else str_nat (nat i))"

text \<open>
  \<^verbatim>\<open>"readonly" in str(e).lower()\<close>. Lower-casing acts on the letters A to Z; no other
  character lower-cases to a letter of \<^verbatim>\<open>readonly\<close>, so the test is decided by them.
\<close>

definition lower_char :: "char \<Rightarrow> char" where
  "lower_char c =
     (if CHR ''A'' \<le> c \<and> c \<le> CHR ''Z'' then char_of (of_char c + (32::nat)) else c)"

definition lower :: "string \<Rightarrow> string" where
  "lower s = map lower_char s"

fun starts_with :: "string \<Rightarrow> string \<Rightarrow> bool" where
  "starts_with [] s = True"
| "starts_with (p # ps) [] = False"
| "starts_with (p # ps) (c # cs) = (p = c \<and> starts_with ps cs)"

fun contains :: "string \<Rightarrow> string \<Rightarrow> bool" where
  "contains p [] = starts_with p []"
| "contains p (c # cs) = (starts_with p (c # cs) \<or> contains p cs)"

subsection \<open>The table\<close>

text \<open>
  \<^verbatim>\<open>
  CREATE TABLE IF NOT EXISTS expenses(
      id INTEGER PRIMARY KEY AUTOINCREMENT,
      date TEXT NOT NULL,
      amount REAL NOT NULL,
      category TEXT NOT NULL,
      subcategory TEXT DEFAULT '',
      note TEXT DEFAULT '')\<close>
  A row has a value in each NOT NULL column; \<^verbatim>\<open>subcategory\<close> and \<^verbatim>\<open>note\<close> may be NULL.
\<close>

record expense =
  e_id :: int
  e_date :: string
  e_amount :: double
  e_category :: string
  e_subcategory :: "string option"
  e_note :: "string option"

text \<open>
  The database file: the rows of \<^verbatim>\<open>expenses\<close> in rowid order, and the entry that
  AUTOINCREMENT keeps for the table in \<^verbatim>\<open>sqlite_sequence\<close> (the largest rowid ever
  assigned; 0 before the first insert). A file without the table behaves as \<open>empty_db\<close>
  once \<^verbatim>\<open>CREATE TABLE IF NOT EXISTS\<close> has run.
\<close>

record db =
  expenses :: "expense list"
  sqlite_sequence :: int

definition empty_db :: db where
  "empty_db = \<lparr>expenses = [], sqlite_sequence = 0\<rparr>"

definition int64_max :: int where
  "int64_max = 9223372036854775807"

definition int64_min :: int where
  "int64_min = - 9223372036854775808"

text \<open>
  What the environment does to a call: nothing, a failure to open the connection, or a
  failure of the statement when it starts to run (a read-only file, an I/O error, a lock
  timeout). Either failure raises \<^verbatim>\<open>sqlite3.OperationalError\<close> with the given message
  before any row is read or written, and nothing is committed.
\<close>

datatype fault = No_fault | Connect_fault string | Statement_fault string

definition connect :: "fault \<Rightarrow> exn + unit" where
  "connect f = (case f of Connect_fault m \<Rightarrow> Inl (OperationalError m) | _ \<Rightarrow> Inr ())"

definition run_statement :: "fault \<Rightarrow> exn + unit" where
  "run_statement f = (case f of Statement_fault m \<Rightarrow> Inl (OperationalError m) | _ \<Rightarrow> Inr ())"

text \<open>
  Binding a Python \<^verbatim>\<open>int\<close> to a statement parameter: SQLite integers are signed 64-bit,
  and the driver raises \<^verbatim>\<open>OverflowError\<close> for anything else.
\<close>

definition bind_int :: "int \<Rightarrow> exn + unit" where
  "bind_int i =
     (if int64_min \<le> i \<and> i \<le> int64_max then Inr ()
      else Inl (OverflowError ''Python int too large to convert to SQLite INTEGER''))"

text \<open>
  Binding a Python number: an \<^verbatim>\<open>int\<close> becomes an SQLite integer or raises as above, a
  \<^verbatim>\<open>float\<close> becomes an SQLite real, and NaN and \<^verbatim>\<open>None\<close> become NULL.
\<close>

datatype sql_number = SQL_null | SQL_integer int | SQL_real double

definition bind_number :: "number option \<Rightarrow> exn + sql_number" where
  "bind_number v =
     (case v of
        None \<Rightarrow> Inr SQL_null
      | Some (Py_int i) \<Rightarrow>
          (case bind_int i of Inl e \<Rightarrow> Inl e | Inr _ \<Rightarrow> Inr (SQL_integer i))
      | Some (Py_float x) \<Rightarrow> Inr (SQL_real x)
      | Some Py_nan \<Rightarrow> Inr SQL_null)"

text \<open>
  The REAL affinity of the \<^verbatim>\<open>amount\<close> column: an integer is stored as the double it
  converts to. \<open>None\<close> is NULL.
\<close>

definition real_affinity :: "sql_number \<Rightarrow> double option" where
  "real_affinity v =
     (case v of
        SQL_null \<Rightarrow> None
      | SQL_integer i \<Rightarrow> Some (Finite (of_int (round_to_double i)))
      | SQL_real x \<Rightarrow> Some x)"

text \<open>What the \<^verbatim>\<open>amount\<close> column receives for a number passed as a parameter.\<close>

definition amount_value :: "number option \<Rightarrow> exn + double option" where
  "amount_value v =
     (case bind_number v of Inl e \<Rightarrow> Inl e | Inr s \<Rightarrow> Inr (real_affinity s))"

subsection \<open>The SQL statements\<close>

text \<open>\<^verbatim>\<open>x BETWEEN lo AND hi\<close> on TEXT; a NULL bound makes the condition NULL, not true.\<close>

definition between :: "string \<Rightarrow> string option \<Rightarrow> string option \<Rightarrow> bool" where
  "between x lo hi =
     (case lo of None \<Rightarrow> False
      | Some l \<Rightarrow> (case hi of None \<Rightarrow> False | Some h \<Rightarrow> l \<le> x \<and> x \<le> h))"

text \<open>
  \<^verbatim>\<open>ORDER BY k DESC\<close>. SQL leaves the order of rows with equal keys open; the model
  fixes one. NULL is below every value, as \<open>None\<close> is below every \<open>Some x\<close>.
\<close>

definition order_by_desc :: "('a \<Rightarrow> 'k::linorder) \<Rightarrow> 'a list \<Rightarrow> 'a list" where
  "order_by_desc k xs = rev (sort_key k xs)"

text \<open>
  The rowid AUTOINCREMENT starts from: the larger of the largest rowid in the table and the
  \<^verbatim>\<open>sqlite_sequence\<close> entry.
\<close>

definition top_rowid :: "db \<Rightarrow> int" where
  "top_rowid d = fold max (map e_id (expenses d)) (sqlite_sequence d)"

text \<open>
  \<^verbatim>\<open>INSERT INTO expenses(date, amount, category, subcategory, note) VALUES (?,?,?,?,?)\<close>.
  The new rowid is computed first (the insert fails with SQLITE_FULL once the largest
  rowid has been used), then the NOT NULL constraints are checked in column order. On
  success the row is appended and \<^verbatim>\<open>sqlite_sequence\<close> records its rowid, which is
  \<^verbatim>\<open>cur.lastrowid\<close>.
\<close>

definition insert_row ::
  "db \<Rightarrow> string option \<Rightarrow> double option \<Rightarrow> string option \<Rightarrow> string option \<Rightarrow> string option
   \<Rightarrow> exn + (int \<times> db)" where
  "insert_row d date amount category subcategory note =
     (if int64_max \<le> top_rowid d then Inl (OperationalError ''database or disk is full'')
      else
        (case date of
           None \<Rightarrow> Inl (IntegrityError ''NOT NULL constraint failed: expenses.date'')
         | Some dt \<Rightarrow>
        (case amount of
           None \<Rightarrow> Inl (IntegrityError ''NOT NULL constraint failed: expenses.amount'')
         | Some am \<Rightarrow>
        (case category of
           None \<Rightarrow> Inl (IntegrityError ''NOT NULL constraint failed: expenses.category'')
         | Some ct \<Rightarrow>
             (let lastrowid = top_rowid d + 1
              in Inr (lastrowid,
                   \<lparr>expenses = expenses d @
                      [\<lparr>e_id = lastrowid, e_date = dt, e_amount = am, e_category = ct,
                        e_subcategory = subcategory, e_note = note\<rparr>],
                    sqlite_sequence = lastrowid\<rparr>))))))"

text \<open>The columns of a fetched row, and \<^verbatim>\<open>cur.description\<close> for them.\<close>

definition py_text :: "string option \<Rightarrow> pyval" where
  "py_text t = (case t of None \<Rightarrow> PNone | Some s \<Rightarrow> PStr s)"

definition expense_row :: "expense \<Rightarrow> pyval list" where
  "expense_row r =
     [PInt (e_id r), PStr (e_date r), PFloat (e_amount r), PStr (e_category r),
      py_text (e_subcategory r), py_text (e_note r)]"

definition expense_cols :: "string list" where
  "expense_cols = [''id'', ''date'', ''amount'', ''category'', ''subcategory'', ''note'']"

definition summary_cols :: "string list" where
  "summary_cols = [''category'', ''total_amount'', ''count'']"

text \<open>\<^verbatim>\<open>dict(zip(cols, r))\<close>\<close>

definition dict_zip :: "string list \<Rightarrow> pyval list \<Rightarrow> pyval" where
  "dict_zip cols r = PDict (zip cols r)"

text \<open>
  \<^verbatim>\<open>SELECT category, SUM(amount) AS total_amount, COUNT(*) as count ... GROUP BY category\<close>
  over the selected rows: one group for each category that occurs. \<open>sql_sum\<close> is
  SQLite's \<^verbatim>\<open>SUM\<close> over the REAL values of a group, in rowid order: a floating-point sum,
  whose rounding and summation method are the engine's and differ between its versions.
  Its result is a double, or NULL (\<open>None\<close>) when the sum is NaN.
\<close>

definition group_by_category ::
  "(double list \<Rightarrow> double option) \<Rightarrow> expense list \<Rightarrow> (string \<times> double option \<times> nat) list" where
  "group_by_category sql_sum rs =
     map (\<lambda>c. (c, sql_sum (map e_amount (filter (\<lambda>r. e_category r = c) rs)),
                  length (filter (\<lambda>r. e_category r = c) rs)))
         (sort (remdups (map e_category rs)))"

definition py_real :: "double option \<Rightarrow> pyval" where
  "py_real t = (case t of None \<Rightarrow> PNone | Some x \<Rightarrow> PFloat x)"

definition summary_row :: "string \<times> double option \<times> nat \<Rightarrow> pyval list" where
  "summary_row g =
     (case g of (category, total_amount, cnt) \<Rightarrow>
        [PStr category, py_real total_amount, PInt (int cnt)])"

subsection \<open>The results\<close>

definition error_result :: "string \<Rightarrow> pyval" where
  "error_result m = PDict [(''status'', PStr ''error''), (''message'', PStr m)]"

definition success_result :: "string \<Rightarrow> pyval \<Rightarrow> pyval" where
  "success_result k v = PDict [(''status'', PStr ''success''), (k, v)]"

text \<open>What a caller reads as the status marker of a result: \<^verbatim>\<open>result.get("status")\<close> when
  the result is a dictionary, nothing when it is any other value.\<close>

definition status :: "pyval \<Rightarrow> pyval option" where
  "status v = (case v of PDict items \<Rightarrow> map_of items ''status'' | _ \<Rightarrow> None)"

definition not_found :: "int \<Rightarrow> pyval" where
  "not_found expense_id = error_result (''Expense ID '' @ str_int expense_id @ '' not found'')"

subsection \<open>The tools\<close>

text \<open>
  \<^verbatim>\<open>
  async def add_expense(date, amount, category, subcategory="", note=""):
      try:
          async with aiosqlite.connect(DB_PATH) as c:
              cur = await c.execute("INSERT INTO expenses(...) VALUES (?,?,?,?,?)", (...))
              expense_id = cur.lastrowid
              await c.commit()
              return {"status": "success", "id": expense_id}
      except Exception as e:
          if "readonly" in str(e).lower():
              return {"status": "error", "message": "Database is read-only"}
          return {"status": "error", "message": str(e)}\<close>
\<close>

definition add_expense_body ::
  "fault \<Rightarrow> db \<Rightarrow> string option \<Rightarrow> number option \<Rightarrow> string option \<Rightarrow> string option arg
   \<Rightarrow> string option arg \<Rightarrow> exn + (pyval \<times> db)" where
  "add_expense_body f d date amount category subcategory note =
     (case connect f of Inl e \<Rightarrow> Inl e | Inr _ \<Rightarrow>
      (case amount_value amount of Inl e \<Rightarrow> Inl e | Inr amount_col \<Rightarrow>
      (case run_statement f of Inl e \<Rightarrow> Inl e | Inr _ \<Rightarrow>
      (case insert_row d date amount_col category
              (param (Some '''') subcategory) (param (Some '''') note) of
         Inl e \<Rightarrow> Inl e
       | Inr (expense_id, d') \<Rightarrow> Inr (success_result ''id'' (PInt expense_id), d')))))"

definition add_expense ::
  "fault \<Rightarrow> db \<Rightarrow> string option \<Rightarrow> number option \<Rightarrow> string option \<Rightarrow> string option arg
   \<Rightarrow> string option arg \<Rightarrow> pyval \<times> db" where
  "add_expense f d date amount category subcategory note =
     (case add_expense_body f d date amount category subcategory note of
        Inr res \<Rightarrow> res
      | Inl e \<Rightarrow>
          (if contains ''readonly'' (lower (str e))
           then (error_result ''Database is read-only'', d)
           else (error_result (str e), d)))"

text \<open>
  \<^verbatim>\<open>
  async def list_expenses(start_date, end_date):
      try:
          async with aiosqlite.connect(DB_PATH) as c:
              cur = await c.execute("""SELECT id, date, amount, category, subcategory, note
                  FROM expenses WHERE date BETWEEN ? AND ?
                  ORDER BY date DESC, id DESC""", (start_date, end_date))
              cols = [d[0] for d in cur.description]
              rows = await cur.fetchall()
              return [dict(zip(cols, r)) for r in rows]
      except Exception as e:
          return {"status": "error", "message": str(e)}\<close>
\<close>

definition select_between :: "db \<Rightarrow> string option \<Rightarrow> string option \<Rightarrow> expense list" where
  "select_between d start_date end_date =
     order_by_desc (\<lambda>r. (e_date r, e_id r))
       (filter (\<lambda>r. between (e_date r) start_date end_date) (expenses d))"

definition list_expenses_body :: "fault \<Rightarrow> db \<Rightarrow> string option \<Rightarrow> string option \<Rightarrow> exn + pyval" where
  "list_expenses_body f d start_date end_date =
     (case connect f of Inl e \<Rightarrow> Inl e | Inr _ \<Rightarrow>
      (case run_statement f of Inl e \<Rightarrow> Inl e | Inr _ \<Rightarrow>
         (let cols = expense_cols;
              rows = map expense_row (select_between d start_date end_date)
          in Inr (PList (map (\<lambda>r. dict_zip cols r) rows)))))"

definition list_expenses :: "fault \<Rightarrow> db \<Rightarrow> string option \<Rightarrow> string option \<Rightarrow> pyval" where
  "list_expenses f d start_date end_date =
     (case list_expenses_body f d start_date end_date of
        Inr res \<Rightarrow> res
      | Inl e \<Rightarrow> error_result (str e))"

text \<open>
  \<^verbatim>\<open>
  async def summarize(start_date, end_date, category=None):
      try:
          async with aiosqlite.connect(DB_PATH) as c:
              query = """SELECT category, SUM(amount) AS total_amount, COUNT(*) as count
                  FROM expenses WHERE date BETWEEN ? AND ?"""
              params = [start_date, end_date]
              if category:
                  query += " AND category = ?"
                  params.append(category)
              query += " GROUP BY category ORDER BY total_amount DESC"
              cur = await c.execute(query, params)
              cols = [d[0] for d in cur.description]
              rows = await cur.fetchall()
              return [dict(zip(cols, r)) for r in rows]
      except Exception as e:
          return {"status": "error", "message": str(e)}\<close>
  \<^verbatim>\<open>if category:\<close> is Python's truth test: \<^verbatim>\<open>None\<close> and the empty string are false.
\<close>

definition truthy :: "string option \<Rightarrow> bool" where
  "truthy s = (case s of None \<Rightarrow> False | Some t \<Rightarrow> t \<noteq> [])"

definition select_summary ::
  "(double list \<Rightarrow> double option) \<Rightarrow> db \<Rightarrow> string option \<Rightarrow> string option \<Rightarrow> string option
   \<Rightarrow> (string \<times> double option \<times> nat) list" where
  "select_summary sql_sum d start_date end_date category =
     (let in_range = filter (\<lambda>r. between (e_date r) start_date end_date) (expenses d);
          selected = (if truthy category
                      then filter (\<lambda>r. Some (e_category r) = category) in_range
                      else in_range)
      in order_by_desc (\<lambda>g. fst (snd g)) (group_by_category sql_sum selected))"

definition summarize_body ::
  "(double list \<Rightarrow> double option) \<Rightarrow> fault \<Rightarrow> db \<Rightarrow> string option \<Rightarrow> string option
   \<Rightarrow> string option \<Rightarrow> exn + pyval" where
  "summarize_body sql_sum f d start_date end_date category =
     (case connect f of Inl e \<Rightarrow> Inl e | Inr _ \<Rightarrow>
      (case run_statement f of Inl e \<Rightarrow> Inl e | Inr _ \<Rightarrow>
         (let cols = summary_cols;
              rows = map summary_row (select_summary sql_sum d start_date end_date category)
          in Inr (PList (map (\<lambda>r. dict_zip cols r) rows)))))"

definition summarize ::
  "(double list \<Rightarrow> double option) \<Rightarrow> fault \<Rightarrow> db \<Rightarrow> string option \<Rightarrow> string option
   \<Rightarrow> string option \<Rightarrow> pyval" where
  "summarize sql_sum f d start_date end_date category =
     (case summarize_body sql_sum f d start_date end_date category of
        Inr res \<Rightarrow> res
      | Inl e \<Rightarrow> error_result (str e))"

text \<open>
  \<^verbatim>\<open>
  async def get_expense(expense_id):
      try:
          async with aiosqlite.connect(DB_PATH) as c:
              cur = await c.execute("SELECT id, date, amount, category, subcategory, note
                                     FROM expenses WHERE id = ?", (expense_id,))
              row = await cur.fetchone()
              if not row:
                  return {"status": "error", "message": f"Expense ID {expense_id} not found"}
              cols = [d[0] for d in cur.description]
              return {"status": "success", "expense": dict(zip(cols, row))}
      except Exception as e:
          return {"status": "error", "message": str(e)}\<close>
  \<^verbatim>\<open>fetchone\<close> gives the first selected row, or \<^verbatim>\<open>None\<close>.
\<close>

definition get_expense_body :: "fault \<Rightarrow> db \<Rightarrow> int \<Rightarrow> exn + pyval" where
  "get_expense_body f d expense_id =
     (case connect f of Inl e \<Rightarrow> Inl e | Inr _ \<Rightarrow>
      (case bind_int expense_id of Inl e \<Rightarrow> Inl e | Inr _ \<Rightarrow>
      (case run_statement f of Inl e \<Rightarrow> Inl e | Inr _ \<Rightarrow>
         (case find (\<lambda>r. e_id r = expense_id) (expenses d) of
            None \<Rightarrow> Inr (not_found expense_id)
          | Some r \<Rightarrow>
              (let row = expense_row r; cols = expense_cols
               in Inr (success_result ''expense'' (dict_zip cols row)))))))"

definition get_expense :: "fault \<Rightarrow> db \<Rightarrow> int \<Rightarrow> pyval" where
  "get_expense f d expense_id =
     (case get_expense_body f d expense_id of
        Inr res \<Rightarrow> res
      | Inl e \<Rightarrow> error_result (str e))"

text \<open>
  \<^verbatim>\<open>
  async def edit_expense(expense_id, date=None, amount=None, category=None,
                         subcategory=None, note=None):
      try:
          async with aiosqlite.connect(DB_PATH) as c:
              fields, params = [], []
              if date is not None:
                  fields.append("date = ?"); params.append(date)
              ... (amount, category, subcategory, note likewise)
              if not fields:
                  return {"status": "error", "message": "No fields to update"}
              params.append(expense_id)
              query = f"UPDATE expenses SET {', '.join(fields)} WHERE id = ?"
              cur = await c.execute(query, params)
              await c.commit()
              if cur.rowcount == 0:
                  return {"status": "error", "message": f"Expense ID {expense_id} not found"}
              return {"status": "success", "updated_id": expense_id}
      except Exception as e:
          return {"status": "error", "message": str(e)}\<close>
  A parameter left out and a parameter given as \<^verbatim>\<open>None\<close> are the same to this function.
  The pairs of \<^verbatim>\<open>fields\<close> and \<^verbatim>\<open>params\<close> are the assignments of the SET clause: first
  with the Python values, then, once \<^verbatim>\<open>execute\<close> has bound them, with the values the
  columns receive.
\<close>

datatype 'n assignment =
    Set_date string
  | Set_amount 'n
  | Set_category string
  | Set_subcategory string
  | Set_note string

definition edit_fields ::
  "string option \<Rightarrow> number option \<Rightarrow> string option \<Rightarrow> string option \<Rightarrow> string option
   \<Rightarrow> number assignment list" where
  "edit_fields date amount category subcategory note =
     (case date of None \<Rightarrow> [] | Some v \<Rightarrow> [Set_date v]) @
     (case amount of None \<Rightarrow> [] | Some v \<Rightarrow> [Set_amount v]) @
     (case category of None \<Rightarrow> [] | Some v \<Rightarrow> [Set_category v]) @
     (case subcategory of None \<Rightarrow> [] | Some v \<Rightarrow> [Set_subcategory v]) @
     (case note of None \<Rightarrow> [] | Some v \<Rightarrow> [Set_note v])"

text \<open>
  \<^verbatim>\<open>execute\<close> binds the parameters in their order, the values of the SET clause and
  then the id, and raises at the first one that the driver refuses.
\<close>

fun bind_assignment :: "number assignment \<Rightarrow> exn + double option assignment" where
  "bind_assignment (Set_date v) = Inr (Set_date v)"
| "bind_assignment (Set_amount v) =
     (case amount_value (Some v) of Inl e \<Rightarrow> Inl e | Inr x \<Rightarrow> Inr (Set_amount x))"
| "bind_assignment (Set_category v) = Inr (Set_category v)"
| "bind_assignment (Set_subcategory v) = Inr (Set_subcategory v)"
| "bind_assignment (Set_note v) = Inr (Set_note v)"

fun bind_params ::
  "number assignment list \<Rightarrow> int \<Rightarrow> exn + double option assignment list" where
  "bind_params [] expense_id =
     (case bind_int expense_id of Inl e \<Rightarrow> Inl e | Inr _ \<Rightarrow> Inr [])"
| "bind_params (a # rest) expense_id =
     (case bind_assignment a of
        Inl e \<Rightarrow> Inl e
      | Inr c \<Rightarrow>
          (case bind_params rest expense_id of Inl e \<Rightarrow> Inl e | Inr cs \<Rightarrow> Inr (c # cs)))"

fun assign :: "double option assignment \<Rightarrow> expense \<Rightarrow> expense" where
  "assign (Set_date v) r = r\<lparr>e_date := v\<rparr>"
| "assign (Set_amount v) r = (case v of None \<Rightarrow> r | Some x \<Rightarrow> r\<lparr>e_amount := x\<rparr>)"
| "assign (Set_category v) r = r\<lparr>e_category := v\<rparr>"
| "assign (Set_subcategory v) r = r\<lparr>e_subcategory := Some v\<rparr>"
| "assign (Set_note v) r = r\<lparr>e_note := Some v\<rparr>"

text \<open>
  \<^verbatim>\<open>UPDATE expenses SET ... WHERE id = ?\<close>, with \<^verbatim>\<open>cur.rowcount\<close>. A row that would get
  NULL as its amount violates \<^verbatim>\<open>amount REAL NOT NULL\<close>: the statement fails and changes
  nothing. With no row of that id there is nothing to violate.
\<close>

definition update_rows ::
  "db \<Rightarrow> double option assignment list \<Rightarrow> int \<Rightarrow> exn + (nat \<times> db)" where
  "update_rows d set_clause expense_id =
     (if filter (\<lambda>r. e_id r = expense_id) (expenses d) \<noteq> [] \<and> Set_amount None \<in> set set_clause
      then Inl (IntegrityError ''NOT NULL constraint failed: expenses.amount'')
      else Inr (length (filter (\<lambda>r. e_id r = expense_id) (expenses d)),
             d\<lparr>expenses :=
                  map (\<lambda>r. if e_id r = expense_id then fold assign set_clause r else r)
                    (expenses d)\<rparr>))"

definition edit_expense_body ::
  "fault \<Rightarrow> db \<Rightarrow> int \<Rightarrow> string option \<Rightarrow> number option \<Rightarrow> string option \<Rightarrow> string option
   \<Rightarrow> string option \<Rightarrow> exn + (pyval \<times> db)" where
  "edit_expense_body f d expense_id date amount category subcategory note =
     (case connect f of Inl e \<Rightarrow> Inl e | Inr _ \<Rightarrow>
      (let fields = edit_fields date amount category subcategory note
       in if fields = [] then Inr (error_result ''No fields to update'', d)
          else
           (case bind_params fields expense_id of Inl e \<Rightarrow> Inl e | Inr set_clause \<Rightarrow>
           (case run_statement f of Inl e \<Rightarrow> Inl e | Inr _ \<Rightarrow>
           (case update_rows d set_clause expense_id of
              Inl e \<Rightarrow> Inl e
            | Inr (rowcount, d') \<Rightarrow>
                 if rowcount = 0 then Inr (not_found expense_id, d')
                 else Inr (success_result ''updated_id'' (PInt expense_id), d'))))))"

definition edit_expense ::
  "fault \<Rightarrow> db \<Rightarrow> int \<Rightarrow> string option \<Rightarrow> number option \<Rightarrow> string option \<Rightarrow> string option
   \<Rightarrow> string option \<Rightarrow> pyval \<times> db" where
  "edit_expense f d expense_id date amount category subcategory note =
     (case edit_expense_body f d expense_id date amount category subcategory note of
        Inr res \<Rightarrow> res
      | Inl e \<Rightarrow> (error_result (str e), d))"

text \<open>
  \<^verbatim>\<open>
  async def delete_expense(expense_id):
      try:
          async with aiosqlite.connect(DB_PATH) as c:
              cur = await c.execute("DELETE FROM expenses WHERE id = ?", (expense_id,))
              await c.commit()
              if cur.rowcount == 0:
                  return {"status": "error", "message": f"Expense ID {expense_id} not found"}
              return {"status": "success", "deleted_id": expense_id}
      except Exception as e:
          return {"status": "error", "message": str(e)}\<close>
\<close>

definition delete_rows :: "db \<Rightarrow> (expense \<Rightarrow> bool) \<Rightarrow> nat \<times> db" where
  "delete_rows d cond =
     (length (filter cond (expenses d)),
      d\<lparr>expenses := filter (\<lambda>r. \<not> cond r) (expenses d)\<rparr>)"

definition delete_expense_body :: "fault \<Rightarrow> db \<Rightarrow> int \<Rightarrow> exn + (pyval \<times> db)" where
  "delete_expense_body f d expense_id =
     (case connect f of Inl e \<Rightarrow> Inl e | Inr _ \<Rightarrow>
      (case bind_int expense_id of Inl e \<Rightarrow> Inl e | Inr _ \<Rightarrow>
      (case run_statement f of Inl e \<Rightarrow> Inl e | Inr _ \<Rightarrow>
         (case delete_rows d (\<lambda>r. e_id r = expense_id) of (rowcount, d') \<Rightarrow>
            if rowcount = 0 then Inr (not_found expense_id, d')
            else Inr (success_result ''deleted_id'' (PInt expense_id), d')))))"

definition delete_expense :: "fault \<Rightarrow> db \<Rightarrow> int \<Rightarrow> pyval \<times> db" where
  "delete_expense f d expense_id =
     (case delete_expense_body f d expense_id of
        Inr res \<Rightarrow> res
      | Inl e \<Rightarrow> (error_result (str e), d))"

text \<open>
  \<^verbatim>\<open>
  def init_db():
      with sqlite3.connect(DB_PATH) as c:
          c.execute("PRAGMA journal_mode=WAL")
          c.execute("CREATE TABLE IF NOT EXISTS expenses(...)")
          c.execute("INSERT OR IGNORE INTO expenses(date, amount, category)
                     VALUES ('2000-01-01', 0, 'test')")
          c.execute("DELETE FROM expenses WHERE category = 'test'")\<close>
  The insert names three columns, so \<^verbatim>\<open>subcategory\<close> and \<^verbatim>\<open>note\<close> take their
  defaults. \<^verbatim>\<open>OR IGNORE\<close> skips a row that violates a constraint; any other error is
  raised. \<^verbatim>\<open>init_db\<close> has no handler: an exception leaves it, and the \<^verbatim>\<open>with\<close> block
  rolls the transaction back.
\<close>

definition init_db :: "fault \<Rightarrow> db \<Rightarrow> exn + db" where
  "init_db f d =
     (case connect f of Inl e \<Rightarrow> Inl e | Inr _ \<Rightarrow>
      (case run_statement f of Inl e \<Rightarrow> Inl e | Inr _ \<Rightarrow>
      (case (case insert_row d (Some ''2000-01-01'') (real_affinity (SQL_integer 0))
                     (Some ''test'') (Some '''') (Some '''') of
               Inl (IntegrityError m) \<Rightarrow> Inr d
             | Inl e \<Rightarrow> Inl e
             | Inr (lastrowid, d') \<Rightarrow> Inr d') of
         Inl e \<Rightarrow> Inl e
       | Inr d' \<Rightarrow> Inr (snd (delete_rows d' (\<lambda>r. e_category r = ''test''))))))"

subsection \<open>Histories of calls\<close>

text \<open>
  The store changes only through the tools and through \<^verbatim>\<open>init_db\<close>, which runs at every
  start of the process. A history is a list of calls, each with what the environment does
  to it; \<open>run\<close> gives the store after it. A start whose \<^verbatim>\<open>init_db\<close> raises leaves the
  file as it was.
\<close>

datatype call =
    Init_db
  | Add_expense "string option" "number option" "string option" "string option arg"
      "string option arg"
  | List_expenses "string option" "string option"
  | Summarize "string option" "string option" "string option"
  | Get_expense int
  | Edit_expense int "string option" "number option" "string option" "string option"
      "string option"
  | Delete_expense int

fun exec :: "db \<Rightarrow> fault \<times> call \<Rightarrow> db" where
  "exec d (f, Init_db) = (case init_db f d of Inl e \<Rightarrow> d | Inr d' \<Rightarrow> d')"
| "exec d (f, Add_expense date amount category subcategory note) =
     snd (add_expense f d date amount category subcategory note)"
| "exec d (f, List_expenses start_date end_date) = d"
| "exec d (f, Summarize start_date end_date category) = d"
| "exec d (f, Get_expense expense_id) = d"
| "exec d (f, Edit_expense expense_id date amount category subcategory note) =
     snd (edit_expense f d expense_id date amount category subcategory note)"
| "exec d (f, Delete_expense expense_id) = snd (delete_expense f d expense_id)"

definition run :: "db \<Rightarrow> (fault \<times> call) list \<Rightarrow> db" where
  "run d calls = foldl exec d calls"

text \<open>
  The states the code can produce: rowids ascend, each lies between 1 and the
  \<^verbatim>\<open>sqlite_sequence\<close> entry, and that entry is a signed 64-bit integer.
\<close>

definition well_formed :: "db \<Rightarrow> bool" where
  "well_formed d \<longleftrightarrow>
     sorted_wrt (<) (map e_id (expenses d)) \<and>
     list_all (\<lambda>r. 1 \<le> e_id r \<and> e_id r \<le> sqlite_sequence d) (expenses d) \<and>
     0 \<le> sqlite_sequence d \<and> sqlite_sequence d \<le> int64_max"

subsection \<open>A sample store\<close>

text \<open>
  The store after \<^verbatim>\<open>init_db\<close> on a fresh file and three calls of \<^verbatim>\<open>add_expense\<close>: the
  sentinel row took rowid 1, so the records have the ids 2, 3 and 4. The third amount
  was passed as an \<^verbatim>\<open>int\<close>.
\<close>

definition sample_calls :: "(fault \<times> call) list" where
  "sample_calls =
     [(No_fault, Init_db),
      (No_fault, Add_expense (Some ''2024-01-05'') (Some (Py_float (Finite 10)))
         (Some ''Food'') Omitted Omitted),
      (No_fault, Add_expense (Some ''2024-01-10'') (Some (Py_float (Finite 5.5)))
         (Some ''Food'') Omitted Omitted),
      (No_fault, Add_expense (Some ''2024-02-01'') (Some (Py_int 100))
         (Some ''Travel'') Omitted (Given (Some ''train'')))]"

definition sample_db :: db where
  "sample_db =
     \<lparr>expenses =
        [\<lparr>e_id = 2, e_date = ''2024-01-05'', e_amount = Finite 10, e_category = ''Food'',
          e_subcategory = Some '''', e_note = Some ''''\<rparr>,
         \<lparr>e_id = 3, e_date = ''2024-01-10'', e_amount = Finite 5.5, e_category = ''Food'',
          e_subcategory = Some '''', e_note = Some ''''\<rparr>,
         \<lparr>e_id = 4, e_date = ''2024-02-01'', e_amount = Finite 100, e_category = ''Travel'',
          e_subcategory = Some '''', e_note = Some ''train''\<rparr>],
      sqlite_sequence = 4\<rparr>"

text \<open>
  SQLite's \<^verbatim>\<open>SUM\<close> on the groups of the sample store: 10.0 + 5.5 is 15.5 and the sum of
  100.0 alone is 100.0, both without rounding in binary floating point. The table has
  no other entry; NULL stands in for the rest, which no statement below reads.
\<close>

definition sample_sum :: "double list \<Rightarrow> double option" where
  "sample_sum xs =
     (if xs = [Finite 10, Finite 5.5] then Some (Finite 15.5)
      else if xs = [Finite 100] then Some (Finite 100)
      else None)"


section \<open>Properties\<close>

subsection \<open>Numbers\<close>

declare lost_bits.simps [simp del]

lemma lost_bits_small: "a < 2 ^ 53 \<Longrightarrow> lost_bits a = 0"
  by (subst lost_bits.simps) simp

lemma round_to_double_small:
  assumes "\<bar>i\<bar> < 2 ^ 53"
  shows "round_to_double i = i"
proof -
  have "lost_bits \<bar>i\<bar> = 0"
    using assms by (rule lost_bits_small)
  then have "round_to_double i = sgn i * \<bar>i\<bar>"
    by (simp add: round_to_double_def Let_def)
  then show ?thesis
    by (simp add: mult_sgn_abs)
qed

lemma round_to_double_exact:
  assumes "\<bar>i\<bar> \<le> 2 ^ 53"
  shows "round_to_double i = i"
proof (cases "\<bar>i\<bar> < 2 ^ 53")
  case True
  then show ?thesis by (rule round_to_double_small)
next
  case False
  with assms have a: "\<bar>i\<bar> = 2 ^ 53" by simp
  have "lost_bits (2 ^ 53) = Suc (lost_bits (2 ^ 52))"
    by (subst lost_bits.simps) simp
  also have "lost_bits (2 ^ 52) = 0"
    by (rule lost_bits_small) simp
  finally have "lost_bits \<bar>i\<bar> = 1"
    by (simp add: a)
  then have "round_to_double i = sgn i * \<bar>i\<bar>"
    by (simp add: round_to_double_def Let_def a)
  then show ?thesis
    by (simp add: mult_sgn_abs)
qed

lemma amount_value_float: "amount_value (Some (Py_float x)) = Inr (Some x)"
  by (simp add: amount_value_def bind_number_def real_affinity_def)

lemma amount_value_nan: "amount_value (Some Py_nan) = Inr None"
  by (simp add: amount_value_def bind_number_def real_affinity_def)

lemma amount_value_int:
  assumes "int64_min \<le> n" and "n \<le> int64_max"
  shows "amount_value (Some (Py_int n)) = Inr (Some (Finite (of_int (round_to_double n))))"
  using assms by (simp add: amount_value_def bind_number_def bind_int_def real_affinity_def)

lemma amount_value_int_out_of_range:
  assumes "n < int64_min \<or> int64_max < n"
  shows "amount_value (Some (Py_int n)) =
     Inl (OverflowError ''Python int too large to convert to SQLite INTEGER'')"
  using assms by (auto simp: amount_value_def bind_number_def bind_int_def)

lemma amount_value_small_int:
  assumes "\<bar>n\<bar> \<le> 2 ^ 53"
  shows "amount_value (Some (Py_int n)) = Inr (Some (Finite (of_int n)))"
proof -
  from assms have "int64_min \<le> n" and "n \<le> int64_max"
    by (simp_all add: int64_min_def int64_max_def)
  then show ?thesis
    using assms by (simp add: amount_value_int round_to_double_exact)
qed

lemma amount_value_cases:
  "amount_value v = Inr None \<or> (\<exists>x. amount_value v = Inr (Some x)) \<or>
   amount_value v = Inl (OverflowError ''Python int too large to convert to SQLite INTEGER'')"
  by (auto simp: amount_value_def bind_number_def bind_int_def real_affinity_def
      split: option.splits number.splits)

subsection \<open>Rowids\<close>

lemma fold_max_ge_start: "(a::int) \<le> fold max xs a"
proof (induction xs arbitrary: a)
  case Nil
  show ?case by simp
next
  case (Cons x xs)
  have "a \<le> max x a" by simp
  also have "max x a \<le> fold max xs (max x a)" by (rule Cons.IH)
  finally show ?case by simp
qed

lemma fold_max_ge_member: "x \<in> set xs \<Longrightarrow> (x::int) \<le> fold max xs a"
proof (induction xs arbitrary: a)
  case Nil
  then show ?case by simp
next
  case (Cons y ys)
  show ?case
  proof (cases "x = y")
    case True
    have "x \<le> max y a" using True by simp
    also have "max y a \<le> fold max ys (max y a)" by (rule fold_max_ge_start)
    finally show ?thesis by simp
  next
    case False
    with Cons.prems have "x \<in> set ys" by simp
    then show ?thesis using Cons.IH by simp
  qed
qed

lemma fold_max_bounded: "\<forall>x \<in> set xs. x \<le> a \<Longrightarrow> fold max xs (a::int) = a"
  by (induction xs) (auto simp: max_def)

lemma top_rowid_ge_sequence: "sqlite_sequence d \<le> top_rowid d"
  by (simp add: top_rowid_def fold_max_ge_start)

lemma top_rowid_ge_id: "r \<in> set (expenses d) \<Longrightarrow> e_id r \<le> top_rowid d"
  by (simp add: top_rowid_def fold_max_ge_member)

lemma top_rowid_wf: "well_formed d \<Longrightarrow> top_rowid d = sqlite_sequence d"
  by (simp add: well_formed_def top_rowid_def list_all_iff fold_max_bounded)

lemma wf_empty_db: "well_formed empty_db"
  by (simp add: well_formed_def empty_db_def int64_max_def)

subsection \<open>The handler of \<^verbatim>\<open>add_expense\<close>\<close>

lemma not_null_category_not_readonly:
  "\<not> contains ''readonly'' (lower ''NOT NULL constraint failed: expenses.category'')"
  by (simp add: lower_def lower_char_def)

lemma add_expense_error_unchanged:
  "add_expense_body f d date amount category subcategory note = Inl e \<Longrightarrow>
   \<exists>m. add_expense f d date amount category subcategory note = (error_result m, d)"
  by (auto simp: add_expense_def)

lemma insert_row_null_category: "\<exists>e. insert_row d date amount None subcategory note = Inl e"
  by (simp add: insert_row_def split: option.splits)

lemma add_expense_body_null_category:
  "\<exists>e. add_expense_body f d date amount None subcategory note = Inl e"
proof (cases "connect f")
  case (Inl e)
  then show ?thesis by (simp add: add_expense_body_def)
next
  case connected: (Inr u)
  show ?thesis
  proof (cases "amount_value amount")
    case (Inl e)
    with connected show ?thesis by (simp add: add_expense_body_def)
  next
    case bound: (Inr x)
    show ?thesis
    proof (cases "run_statement f")
      case (Inl e)
      with connected bound show ?thesis by (simp add: add_expense_body_def)
    next
      case (Inr v)
      obtain e where "insert_row d date x None (param (Some '''') subcategory)
          (param (Some '''') note) = Inl e"
        using insert_row_null_category by blast
      with connected bound Inr show ?thesis by (simp add: add_expense_body_def)
    qed
  qed
qed

lemma add_expense_success:
  assumes "top_rowid d < int64_max" and "amount_value (Some am) = Inr (Some x)"
  shows "add_expense No_fault d (Some dt) (Some am) (Some ct) subcategory note =
     (success_result ''id'' (PInt (top_rowid d + 1)),
      \<lparr>expenses = expenses d @
         [\<lparr>e_id = top_rowid d + 1, e_date = dt, e_amount = x, e_category = ct,
           e_subcategory = param (Some '''') subcategory, e_note = param (Some '''') note\<rparr>],
       sqlite_sequence = top_rowid d + 1\<rparr>)"
  using assms
  by (simp add: add_expense_def add_expense_body_def connect_def run_statement_def
      insert_row_def Let_def)

text \<open>
  C4, as the code has it. The schema says \<^verbatim>\<open>category TEXT NOT NULL\<close>: it rejects a
  category that is \<^verbatim>\<open>None\<close>, and nothing in \<^verbatim>\<open>add_expense\<close> or in the schema rejects the
  empty string. With category \<^verbatim>\<open>None\<close>, \<^verbatim>\<open>add_expense\<close> returns an error result and the
  store is unchanged, whatever the other arguments and the environment; when the date
  is given, the amount is one the column can hold (every float is, NaN apart) and the
  store can assign a rowid, the message is that of the NOT NULL constraint on the
  category. With the empty string as category and the same conditions, the call
  succeeds and appends a row whose category is the empty string.
\<close>

theorem add_expense_null_category_rejected:
  "(\<exists>m. add_expense f d date amount None subcategory note = (error_result m, d)) \<and>
   (top_rowid d < int64_max \<and> amount_value (Some am) = Inr (Some x) \<longrightarrow>
      add_expense No_fault d (Some dt) (Some am) None subcategory note =
        (error_result ''NOT NULL constraint failed: expenses.category'', d) \<and>
      add_expense No_fault d (Some dt) (Some am) (Some '''') subcategory note =
        (success_result ''id'' (PInt (top_rowid d + 1)),
         \<lparr>expenses = expenses d @
            [\<lparr>e_id = top_rowid d + 1, e_date = dt, e_amount = x, e_category = '''',
              e_subcategory = param (Some '''') subcategory,
              e_note = param (Some '''') note\<rparr>],
          sqlite_sequence = top_rowid d + 1\<rparr>)) \<and>
   amount_value (Some (Py_float y)) = Inr (Some y)"
proof (intro conjI impI)
  obtain e where "add_expense_body f d date amount None subcategory note = Inl e"
    using add_expense_body_null_category by blast
  then show "\<exists>m. add_expense f d date amount None subcategory note = (error_result m, d)"
    by (rule add_expense_error_unchanged)
next
  assume "top_rowid d < int64_max \<and> amount_value (Some am) = Inr (Some x)"
  then have "add_expense_body No_fault d (Some dt) (Some am) None subcategory note =
      Inl (IntegrityError ''NOT NULL constraint failed: expenses.category'')"
    by (simp add: add_expense_body_def connect_def run_statement_def insert_row_def)
  then show "add_expense No_fault d (Some dt) (Some am) None subcategory note =
      (error_result ''NOT NULL constraint failed: expenses.category'', d)"
    using not_null_category_not_readonly by (simp add: add_expense_def)
next
  assume "top_rowid d < int64_max \<and> amount_value (Some am) = Inr (Some x)"
  then show "add_expense No_fault d (Some dt) (Some am) (Some '''') subcategory note =
        (success_result ''id'' (PInt (top_rowid d + 1)),
         \<lparr>expenses = expenses d @
            [\<lparr>e_id = top_rowid d + 1, e_date = dt, e_amount = x, e_category = '''',
              e_subcategory = param (Some '''') subcategory,
              e_note = param (Some '''') note\<rparr>],
          sqlite_sequence = top_rowid d + 1\<rparr>)"
    by (simp add: add_expense_success)
next
  show "amount_value (Some (Py_float y)) = Inr (Some y)"
    by (rule amount_value_float)
qed

theorem add_expense_null_category_rejected_witness:
  "top_rowid empty_db < int64_max \<and>
   amount_value (Some (Py_float (Finite 10))) = Inr (Some (Finite 10)) \<and>
   add_expense No_fault empty_db (Some ''2024-01-05'') (Some (Py_float (Finite 10))) None
       Omitted Omitted =
     (error_result ''NOT NULL constraint failed: expenses.category'', empty_db) \<and>
   add_expense No_fault empty_db (Some ''2024-01-05'') (Some (Py_float (Finite 10)))
       (Some '''') Omitted Omitted =
     (success_result ''id'' (PInt 1),
      \<lparr>expenses = [\<lparr>e_id = 1, e_date = ''2024-01-05'', e_amount = Finite 10,
                     e_category = '''', e_subcategory = Some '''', e_note = Some ''''\<rparr>],
       sqlite_sequence = 1\<rparr>)"
proof -
  have free: "top_rowid empty_db < int64_max"
    by (simp add: top_rowid_def empty_db_def int64_max_def)
  have top: "top_rowid empty_db = 0"
    by (simp add: top_rowid_def empty_db_def)
  have rows: "expenses empty_db = []"
    by (simp add: empty_db_def)
  have held: "amount_value (Some (Py_float (Finite 10))) = Inr (Some (Finite 10))"
    by (rule amount_value_float)
  note both = add_expense_null_category_rejected
      [THEN conjunct2, THEN conjunct1, THEN mp, OF conjI [OF free held]]
  have "add_expense No_fault empty_db (Some ''2024-01-05'') (Some (Py_float (Finite 10))) None
       Omitted Omitted =
     (error_result ''NOT NULL constraint failed: expenses.category'', empty_db)"
    by (rule both [THEN conjunct1])
  moreover have "add_expense No_fault empty_db (Some ''2024-01-05'')
       (Some (Py_float (Finite 10))) (Some '''') Omitted Omitted =
     (success_result ''id'' (PInt (top_rowid empty_db + 1)),
         \<lparr>expenses = expenses empty_db @
            [\<lparr>e_id = top_rowid empty_db + 1, e_date = ''2024-01-05'', e_amount = Finite 10,
              e_category = '''',
              e_subcategory = param (Some '''') Omitted,
              e_note = param (Some '''') Omitted\<rparr>],
          sqlite_sequence = top_rowid empty_db + 1\<rparr>)"
    by (rule both [THEN conjunct2])
  ultimately show ?thesis
    using free held by (simp add: top rows)
qed

text \<open>
  C4 as the specification states it fails: on the empty store, \<^verbatim>\<open>add_expense\<close> with the
  empty string as category reports success with id 1 and the row is in the table.
\<close>

theorem add_expense_empty_category_counterexample:
  "add_expense No_fault empty_db (Some ''2024-01-05'') (Some (Py_float (Finite 10)))
       (Some '''') Omitted Omitted =
     (PDict [(''status'', PStr ''success''), (''id'', PInt 1)],
      \<lparr>expenses = [\<lparr>e_id = 1, e_date = ''2024-01-05'', e_amount = Finite 10,
                     e_category = '''', e_subcategory = Some '''', e_note = Some ''''\<rparr>],
       sqlite_sequence = 1\<rparr>)"
  by (simp add: add_expense_def add_expense_body_def connect_def run_statement_def
      insert_row_def top_rowid_def empty_db_def int64_max_def success_result_def
      amount_value_float)

subsection \<open>Results: success and error never coincide\<close>

lemma error_not_success: "error_result m \<noteq> success_result k v"
  by (simp add: error_result_def success_result_def)

lemma not_found_not_success: "not_found i \<noteq> success_result k v"
  by (simp add: not_found_def error_not_success)

lemma success_result_inject: "success_result k v = success_result k' v' \<longleftrightarrow> k = k' \<and> v = v'"
  by (auto simp: success_result_def)

lemma error_result_inject: "error_result m = error_result m' \<longleftrightarrow> m = m'"
  by (simp add: error_result_def)

subsection \<open>What a successful \<^verbatim>\<open>add_expense\<close> did\<close>

lemma add_expense_body_Inr:
  assumes "add_expense_body f d date amount category subcategory note = Inr (res, d')"
  shows "top_rowid d < int64_max \<and>
     res = success_result ''id'' (PInt (top_rowid d + 1)) \<and>
     (\<exists>dt x ct. date = Some dt \<and> amount_value amount = Inr (Some x) \<and> category = Some ct \<and>
        d' = \<lparr>expenses = expenses d @
               [\<lparr>e_id = top_rowid d + 1, e_date = dt, e_amount = x, e_category = ct,
                 e_subcategory = param (Some '''') subcategory,
                 e_note = param (Some '''') note\<rparr>],
              sqlite_sequence = top_rowid d + 1\<rparr>)"
  using assms
  by (auto simp: add_expense_body_def insert_row_def Let_def
      split: sum.splits option.splits if_splits prod.splits)

lemma add_expense_cases:
  assumes "add_expense f d date amount category subcategory note = (res, d')"
  shows "(\<exists>m. res = error_result m \<and> d' = d) \<or>
     (top_rowid d < int64_max \<and>
      res = success_result ''id'' (PInt (top_rowid d + 1)) \<and>
      (\<exists>dt x ct. date = Some dt \<and> amount_value amount = Inr (Some x) \<and> category = Some ct \<and>
        d' = \<lparr>expenses = expenses d @
               [\<lparr>e_id = top_rowid d + 1, e_date = dt, e_amount = x, e_category = ct,
                 e_subcategory = param (Some '''') subcategory,
                 e_note = param (Some '''') note\<rparr>],
              sqlite_sequence = top_rowid d + 1\<rparr>))"
proof (cases "add_expense_body f d date amount category subcategory note")
  case (Inl e)
  with assms show ?thesis
    by (auto simp: add_expense_def split: if_splits)
next
  case (Inr p)
  with assms have "add_expense_body f d date amount category subcategory note = Inr (res, d')"
    by (simp add: add_expense_def)
  then show ?thesis
    using add_expense_body_Inr by blast
qed

lemma add_expense_successD:
  assumes "add_expense f d date amount category subcategory note =
             (success_result ''id'' (PInt i), d')"
  shows "top_rowid d < int64_max \<and> i = top_rowid d + 1 \<and>
     (\<exists>dt x ct. date = Some dt \<and> amount_value amount = Inr (Some x) \<and> category = Some ct \<and>
        d' = \<lparr>expenses = expenses d @
               [\<lparr>e_id = top_rowid d + 1, e_date = dt, e_amount = x, e_category = ct,
                 e_subcategory = param (Some '''') subcategory,
                 e_note = param (Some '''') note\<rparr>],
              sqlite_sequence = top_rowid d + 1\<rparr>)"
  using add_expense_cases [OF assms]
  by (auto simp: error_not_success [symmetric] success_result_inject)

lemma add_expense_not_held:
  assumes "\<forall>x. amount_value amount \<noteq> Inr (Some x)"
  shows "\<exists>m. add_expense f d date amount category subcategory note = (error_result m, d)"
proof -
  obtain res d' where r: "add_expense f d date amount category subcategory note = (res, d')"
    by (cases "add_expense f d date amount category subcategory note")
  from add_expense_cases [OF r] assms show ?thesis
    by (auto simp: r)
qed

subsection \<open>Looking a row up by its id\<close>

lemma find_append_last:
  assumes "\<forall>y \<in> set xs. \<not> P y" and "P x"
  shows "find P (xs @ [x]) = Some x"
  using assms by (induction xs) auto

lemma find_None_absent: "\<forall>y \<in> set xs. \<not> P y \<Longrightarrow> find P xs = None"
  by (induction xs) auto

lemma get_expense_found:
  assumes "int64_min \<le> i" and "i \<le> int64_max"
    and "find (\<lambda>r. e_id r = i) (expenses d) = Some r"
  shows "get_expense No_fault d i =
     success_result ''expense''
       (PDict [(''id'', PInt (e_id r)), (''date'', PStr (e_date r)),
               (''amount'', PFloat (e_amount r)), (''category'', PStr (e_category r)),
               (''subcategory'', py_text (e_subcategory r)), (''note'', py_text (e_note r))])"
  using assms
  by (simp add: get_expense_def get_expense_body_def connect_def run_statement_def bind_int_def
      Let_def dict_zip_def expense_cols_def expense_row_def)

lemma get_expense_absent:
  assumes "int64_min \<le> i" and "i \<le> int64_max"
    and "\<forall>r \<in> set (expenses d). e_id r \<noteq> i"
  shows "get_expense No_fault d i = not_found i"
proof -
  have "find (\<lambda>r. e_id r = i) (expenses d) = None"
    using assms(3) by (simp add: find_None_absent)
  with assms(1,2) show ?thesis
    by (simp add: get_expense_def get_expense_body_def connect_def run_statement_def
        bind_int_def)
qed

lemma round_to_double_above_2_53: "round_to_double 9007199254740993 = 9007199254740992"
proof -
  have "lost_bits 9007199254740993 = Suc (lost_bits 4503599627370496)"
    by (subst lost_bits.simps) simp
  also have "lost_bits 4503599627370496 = 0"
    by (rule lost_bits_small) simp
  finally have "lost_bits 9007199254740993 = 1"
    by simp
  then show ?thesis
    by (simp add: round_to_double_def Let_def)
qed

text \<open>
  C1, as the code has it. The \<^verbatim>\<open>amount\<close> column is REAL: it holds a float as it is, and
  an integer as the double that the integer converts to. In a store the code can have
  produced, a call of \<^verbatim>\<open>add_expense\<close> with a date, a category (empty or not) and an
  amount that the column can hold succeeds when the environment raises nothing and a
  rowid is left; whenever it succeeds with id \<open>i\<close>, \<^verbatim>\<open>get_expense(i)\<close> on the resulting
  store returns the record with that id, exactly the submitted date and category, the
  submitted subcategory and note (the empty string where the argument was left out),
  and as amount the value the column holds. That value is the submitted one for every
  float other than NaN and for every integer of magnitude at most \<open>2^53\<close>; for another
  integer in the signed 64-bit range it is the nearest double. With any other amount
  (NaN, an integer outside that range) the call returns an error and stores nothing.
\<close>

theorem add_then_get:
  assumes "well_formed d"
  shows "(sqlite_sequence d < int64_max \<and> amount_value (Some am) = Inr (Some x) \<longrightarrow>
            (\<exists>i d'. add_expense No_fault d (Some dt) (Some am) (Some ct) subcategory note =
                      (success_result ''id'' (PInt i), d'))) \<and>
         (add_expense f d (Some dt) (Some am) (Some ct) subcategory note =
            (success_result ''id'' (PInt i), d') \<longrightarrow>
          (\<exists>v. amount_value (Some am) = Inr (Some v) \<and>
             get_expense No_fault d' i =
               success_result ''expense''
                 (PDict [(''id'', PInt i), (''date'', PStr dt), (''amount'', PFloat v),
                         (''category'', PStr ct),
                         (''subcategory'',
                            (case subcategory of Omitted \<Rightarrow> PStr '''' | Given v \<Rightarrow> py_text v)),
                         (''note'',
                            (case note of Omitted \<Rightarrow> PStr '''' | Given v \<Rightarrow> py_text v))]))) \<and>
         amount_value (Some (Py_float y)) = Inr (Some y) \<and>
         (\<bar>n\<bar> \<le> 2 ^ 53 \<longrightarrow> amount_value (Some (Py_int n)) = Inr (Some (Finite (of_int n)))) \<and>
         (int64_min \<le> n \<and> n \<le> int64_max \<longrightarrow>
            amount_value (Some (Py_int n)) =
              Inr (Some (Finite (of_int (round_to_double n))))) \<and>
         ((\<forall>v. amount_value (Some am) \<noteq> Inr (Some v)) \<longrightarrow>
            (\<exists>m. add_expense f d date (Some am) category subcategory note =
                   (error_result m, d)))"
proof (intro conjI impI)
  assume "sqlite_sequence d < int64_max \<and> amount_value (Some am) = Inr (Some x)"
  with assms have "top_rowid d < int64_max" and "amount_value (Some am) = Inr (Some x)"
    by (simp_all add: top_rowid_wf)
  then show "\<exists>i d'. add_expense No_fault d (Some dt) (Some am) (Some ct) subcategory note =
      (success_result ''id'' (PInt i), d')"
    using add_expense_success by blast
next
  assume added: "add_expense f d (Some dt) (Some am) (Some ct) subcategory note =
      (success_result ''id'' (PInt i), d')"
  from add_expense_successD [OF added]
  obtain v where v: "amount_value (Some am) = Inr (Some v)"
    and free: "top_rowid d < int64_max" and i: "i = top_rowid d + 1"
    and d': "d' = \<lparr>expenses = expenses d @
        [\<lparr>e_id = top_rowid d + 1, e_date = dt, e_amount = v,
          e_category = ct, e_subcategory = param (Some '''') subcategory,
          e_note = param (Some '''') note\<rparr>], sqlite_sequence = top_rowid d + 1\<rparr>"
    by auto
  define new where "new = \<lparr>e_id = top_rowid d + 1, e_date = dt, e_amount = v,
      e_category = ct, e_subcategory = param (Some '''') subcategory,
      e_note = param (Some '''') note\<rparr>"
  have "0 \<le> top_rowid d"
    using assms by (simp add: top_rowid_wf well_formed_def)
  then have lo: "int64_min \<le> i" and hi: "i \<le> int64_max"
    using free i by (simp_all add: int64_min_def)
  have "\<forall>r \<in> set (expenses d). e_id r \<noteq> i"
    using top_rowid_ge_id [of _ d] i by fastforce
  moreover have "e_id new = i"
    by (simp add: new_def i)
  ultimately have "find (\<lambda>r. e_id r = i) (expenses d @ [new]) = Some new"
    by (simp add: find_append_last)
  then have "find (\<lambda>r. e_id r = i) (expenses d') = Some new"
    by (simp add: d' new_def)
  from get_expense_found [OF lo hi this]
  have "get_expense No_fault d' i =
      success_result ''expense''
        (PDict [(''id'', PInt i), (''date'', PStr dt), (''amount'', PFloat v),
                (''category'', PStr ct),
                (''subcategory'',
                   (case subcategory of Omitted \<Rightarrow> PStr '''' | Given v \<Rightarrow> py_text v)),
                (''note'',
                   (case note of Omitted \<Rightarrow> PStr '''' | Given v \<Rightarrow> py_text v))])"
    by (simp add: new_def i py_text_def split: arg.splits)
  with v show "\<exists>v. amount_value (Some am) = Inr (Some v) \<and>
             get_expense No_fault d' i =
               success_result ''expense''
                 (PDict [(''id'', PInt i), (''date'', PStr dt), (''amount'', PFloat v),
                         (''category'', PStr ct),
                         (''subcategory'',
                            (case subcategory of Omitted \<Rightarrow> PStr '''' | Given v \<Rightarrow> py_text v)),
                         (''note'',
                            (case note of Omitted \<Rightarrow> PStr '''' | Given v \<Rightarrow> py_text v))])"
    by blast
next
  show "amount_value (Some (Py_float y)) = Inr (Some y)"
    by (rule amount_value_float)
next
  assume "\<bar>n\<bar> \<le> 2 ^ 53"
  then show "amount_value (Some (Py_int n)) = Inr (Some (Finite (of_int n)))"
    by (rule amount_value_small_int)
next
  assume "int64_min \<le> n \<and> n \<le> int64_max"
  then show "amount_value (Some (Py_int n)) =
      Inr (Some (Finite (of_int (round_to_double n))))"
    by (simp add: amount_value_int)
next
  assume "\<forall>v. amount_value (Some am) \<noteq> Inr (Some v)"
  then show "\<exists>m. add_expense f d date (Some am) category subcategory note =
      (error_result m, d)"
    by (rule add_expense_not_held)
qed

theorem add_then_get_witness:
  "well_formed empty_db \<and> sqlite_sequence empty_db < int64_max \<and>
   amount_value (Some (Py_float (Finite 10))) = Inr (Some (Finite 10)) \<and>
   add_expense No_fault empty_db (Some ''2024-01-05'') (Some (Py_float (Finite 10)))
       (Some ''Food'') Omitted (Given (Some ''lunch'')) =
     (success_result ''id'' (PInt 1),
      \<lparr>expenses = [\<lparr>e_id = 1, e_date = ''2024-01-05'', e_amount = Finite 10,
                     e_category = ''Food'', e_subcategory = Some '''',
                     e_note = Some ''lunch''\<rparr>],
       sqlite_sequence = 1\<rparr>) \<and>
   get_expense No_fault
       \<lparr>expenses = [\<lparr>e_id = 1, e_date = ''2024-01-05'', e_amount = Finite 10,
                     e_category = ''Food'', e_subcategory = Some '''',
                     e_note = Some ''lunch''\<rparr>],
        sqlite_sequence = 1\<rparr> 1 =
     success_result ''expense''
       (PDict [(''id'', PInt 1), (''date'', PStr ''2024-01-05''),
               (''amount'', PFloat (Finite 10)),
               (''category'', PStr ''Food''), (''subcategory'', PStr ''''),
               (''note'', PStr ''lunch'')]) \<and>
   \<bar>7::int\<bar> \<le> 2 ^ 53 \<and>
   amount_value (Some (Py_int 7)) = Inr (Some (Finite 7)) \<and>
   (\<exists>m. add_expense No_fault empty_db (Some ''2024-01-05'') (Some Py_nan) (Some ''Food'')
          Omitted Omitted = (error_result m, empty_db))"
proof -
  let ?d' = "\<lparr>expenses = [\<lparr>e_id = 1, e_date = ''2024-01-05'', e_amount = Finite 10,
                     e_category = ''Food'', e_subcategory = Some '''',
                     e_note = Some ''lunch''\<rparr>],
        sqlite_sequence = 1\<rparr>"
  have held: "amount_value (Some (Py_float (Finite 10))) = Inr (Some (Finite 10))"
    by (rule amount_value_float)
  have added: "add_expense No_fault empty_db (Some ''2024-01-05'')
       (Some (Py_float (Finite 10))) (Some ''Food'')
       Omitted (Given (Some ''lunch'')) = (success_result ''id'' (PInt 1), ?d')"
    by (simp add: add_expense_def add_expense_body_def connect_def run_statement_def
        insert_row_def top_rowid_def empty_db_def int64_max_def held)
  have free: "sqlite_sequence empty_db < int64_max"
    by (simp add: empty_db_def int64_max_def)
  have small: "\<bar>7::int\<bar> \<le> 2 ^ 53"
    by simp
  have nan: "\<forall>v. amount_value (Some Py_nan) \<noteq> Inr (Some v)"
    by (simp add: amount_value_nan)
  note parts = add_then_get [OF wf_empty_db]
  from parts [THEN conjunct2, THEN conjunct1, THEN mp, OF added]
  obtain v where "amount_value (Some (Py_float (Finite 10))) = Inr (Some v)"
    and got: "get_expense No_fault ?d' 1 =
      success_result ''expense''
        (PDict [(''id'', PInt 1), (''date'', PStr ''2024-01-05''), (''amount'', PFloat v),
                (''category'', PStr ''Food''),
                (''subcategory'',
                   (case Omitted of Omitted \<Rightarrow> PStr '''' | Given v \<Rightarrow> py_text v)),
                (''note'',
                   (case Given (Some ''lunch'') of Omitted \<Rightarrow> PStr ''''
                    | Given v \<Rightarrow> py_text v))])"
    by blast
  then have v: "v = Finite 10"
    by (simp add: held)
  have seven: "amount_value (Some (Py_int 7)) = Inr (Some (Finite (of_int 7)))"
    by (rule parts [THEN conjunct2, THEN conjunct2, THEN conjunct2, THEN conjunct1, THEN mp,
          OF small])
  have rejected: "\<exists>m. add_expense No_fault empty_db (Some ''2024-01-05'') (Some Py_nan)
      (Some ''Food'') Omitted Omitted = (error_result m, empty_db)"
    by (rule parts [THEN conjunct2, THEN conjunct2, THEN conjunct2, THEN conjunct2,
          THEN conjunct2, THEN mp, OF nan])
  show ?thesis
    using wf_empty_db free held added got seven rejected small
    by (simp add: v py_text_def)
qed

text \<open>
  C1 as the specification states it fails for an integer amount that no double holds:
  on the empty store \<^verbatim>\<open>add_expense("2024-01-05", 9007199254740993, "Food")\<close> succeeds
  with id 1, and \<^verbatim>\<open>get_expense(1)\<close> returns the amount 9007199254740992.0.
\<close>

theorem add_then_get_rounded_counterexample:
  "add_expense No_fault empty_db (Some ''2024-01-05'') (Some (Py_int 9007199254740993))
       (Some ''Food'') Omitted Omitted =
     (success_result ''id'' (PInt 1),
      \<lparr>expenses = [\<lparr>e_id = 1, e_date = ''2024-01-05'', e_amount = Finite 9007199254740992,
                     e_category = ''Food'', e_subcategory = Some '''', e_note = Some ''''\<rparr>],
       sqlite_sequence = 1\<rparr>) \<and>
   get_expense No_fault
       \<lparr>expenses = [\<lparr>e_id = 1, e_date = ''2024-01-05'', e_amount = Finite 9007199254740992,
                     e_category = ''Food'', e_subcategory = Some '''', e_note = Some ''''\<rparr>],
        sqlite_sequence = 1\<rparr> 1 =
     success_result ''expense''
       (PDict [(''id'', PInt 1), (''date'', PStr ''2024-01-05''),
               (''amount'', PFloat (Finite 9007199254740992)),
               (''category'', PStr ''Food''), (''subcategory'', PStr ''''),
               (''note'', PStr '''')]) \<and>
   (9007199254740992::real) \<noteq> 9007199254740993"
proof -
  have held: "amount_value (Some (Py_int 9007199254740993)) =
      Inr (Some (Finite 9007199254740992))"
    by (simp add: amount_value_def bind_number_def bind_int_def real_affinity_def
        int64_min_def int64_max_def round_to_double_above_2_53)
  have "add_expense No_fault empty_db (Some ''2024-01-05'') (Some (Py_int 9007199254740993))
       (Some ''Food'') Omitted Omitted =
     (success_result ''id'' (PInt 1),
      \<lparr>expenses = [\<lparr>e_id = 1, e_date = ''2024-01-05'', e_amount = Finite 9007199254740992,
                     e_category = ''Food'', e_subcategory = Some '''', e_note = Some ''''\<rparr>],
       sqlite_sequence = 1\<rparr>)"
    by (simp add: add_expense_def add_expense_body_def connect_def run_statement_def
        insert_row_def top_rowid_def empty_db_def int64_max_def held)
  moreover have "get_expense No_fault
       \<lparr>expenses = [\<lparr>e_id = 1, e_date = ''2024-01-05'', e_amount = Finite 9007199254740992,
                     e_category = ''Food'', e_subcategory = Some '''', e_note = Some ''''\<rparr>],
        sqlite_sequence = 1\<rparr> 1 =
     success_result ''expense''
       (PDict [(''id'', PInt 1), (''date'', PStr ''2024-01-05''),
               (''amount'', PFloat (Finite 9007199254740992)),
               (''category'', PStr ''Food''), (''subcategory'', PStr ''''),
               (''note'', PStr '''')])"
    by (simp add: get_expense_def get_expense_body_def connect_def run_statement_def
        bind_int_def int64_min_def int64_max_def dict_zip_def expense_cols_def
        expense_row_def py_text_def)
  ultimately show ?thesis
    by simp
qed

subsection \<open>What \<^verbatim>\<open>edit_expense\<close> and \<^verbatim>\<open>delete_expense\<close> did\<close>

lemma e_id_fold_assign: "e_id (fold assign fs r) = e_id r"
proof (induction fs arbitrary: r)
  case Nil
  show ?case by simp
next
  case (Cons a fs)
  have "e_id (assign a r) = e_id r"
    by (cases a) (simp_all split: option.splits)
  with Cons.IH [of "assign a r"] show ?case by simp
qed

lemma map_if_absent:
  "\<forall>r \<in> set xs. e_id r \<noteq> i \<Longrightarrow> map (\<lambda>r. if e_id r = i then g r else r) xs = xs"
  by (rule map_idI) simp

lemma filter_id_absent:
  "\<forall>r \<in> set xs. e_id r \<noteq> i \<Longrightarrow> filter (\<lambda>r. e_id r = i) xs = []"
  by (simp add: filter_empty_conv)

lemma filter_id_empty:
  "filter (\<lambda>r. e_id r = i) xs = [] \<Longrightarrow> \<forall>r \<in> set xs. e_id r \<noteq> i"
  by (simp add: filter_empty_conv)

lemma filter_neq_absent:
  "\<forall>r \<in> set xs. e_id r \<noteq> i \<Longrightarrow> filter (\<lambda>r. e_id r \<noteq> i) xs = xs"
  by (simp add: filter_id_conv)

lemma map_assign_ids:
  "map e_id (map (\<lambda>r. if e_id r = i then fold assign fs r else r) xs) = map e_id xs"
  by (simp add: e_id_fold_assign comp_def if_distrib [of e_id] cong: if_cong)

lemma update_rows_absent:
  assumes "\<forall>r \<in> set (expenses d). e_id r \<noteq> i"
  shows "update_rows d fs i = Inr (0, d)"
  using assms by (simp add: update_rows_def map_if_absent filter_id_absent)

text \<open>What binding makes of the fields of an edit.\<close>

lemma bind_params_edit_fields:
  "bind_params (edit_fields date amount category subcategory note) i =
     (case (case amount of
              None \<Rightarrow> Inr None
            | Some a \<Rightarrow> (case amount_value (Some a) of Inl e \<Rightarrow> Inl e | Inr x \<Rightarrow> Inr (Some x))) of
        Inl e \<Rightarrow> Inl e
      | Inr bound \<Rightarrow>
          (case bind_int i of
             Inl e \<Rightarrow> Inl e
           | Inr _ \<Rightarrow>
               Inr ((case date of None \<Rightarrow> [] | Some v \<Rightarrow> [Set_date v]) @
                    (case bound of None \<Rightarrow> [] | Some x \<Rightarrow> [Set_amount x]) @
                    (case category of None \<Rightarrow> [] | Some v \<Rightarrow> [Set_category v]) @
                    (case subcategory of None \<Rightarrow> [] | Some v \<Rightarrow> [Set_subcategory v]) @
                    (case note of None \<Rightarrow> [] | Some v \<Rightarrow> [Set_note v]))))"
  by (cases date; cases amount; cases category; cases subcategory; cases "note")
     (simp_all add: edit_fields_def split: sum.splits)



lemma edit_expense_cases:
  assumes "edit_expense f d i date amount category subcategory note = (res, d')"
  shows "(\<exists>m. res = error_result m) \<and> d' = d \<or>
     (res = success_result ''updated_id'' (PInt i) \<and>
      int64_min \<le> i \<and> i \<le> int64_max \<and>
      (\<exists>r \<in> set (expenses d). e_id r = i) \<and>
      edit_fields date amount category subcategory note \<noteq> [] \<and>
      (\<exists>cs. bind_params (edit_fields date amount category subcategory note) i = Inr cs \<and>
         Set_amount None \<notin> set cs \<and>
         d' = d\<lparr>expenses :=
                map (\<lambda>r. if e_id r = i then fold assign cs r else r) (expenses d)\<rparr>))"
proof (cases "\<forall>r \<in> set (expenses d). e_id r \<noteq> i")
  case True
  then have "\<And>fs. update_rows d fs i = Inr (0, d)"
    by (rule update_rows_absent)
  with assms show ?thesis
    by (auto simp: edit_expense_def edit_expense_body_def Let_def not_found_def
        split: sum.splits if_splits)
next
  case False
  then have some: "filter (\<lambda>r. e_id r = i) (expenses d) \<noteq> []"
    using filter_id_empty by blast
  show ?thesis
  proof (cases "edit_expense_body f d i date amount category subcategory note")
    case (Inl e)
    with assms show ?thesis
      by (auto simp: edit_expense_def)
  next
    case (Inr p)
    with assms have body: "edit_expense_body f d i date amount category subcategory note =
        Inr (res, d')"
      by (simp add: edit_expense_def)
    show ?thesis
    proof (cases "edit_fields date amount category subcategory note = []")
      case True
      with body show ?thesis
        by (auto simp: edit_expense_body_def Let_def split: sum.splits)
    next
      case fields: False
      from body fields obtain cs
        where cs: "bind_params (edit_fields date amount category subcategory note) i = Inr cs"
          and upd: "update_rows d cs i = Inr
            (length (filter (\<lambda>r. e_id r = i) (expenses d)), d')"
          and res: "res = success_result ''updated_id'' (PInt i)"
        using some
        by (auto simp: edit_expense_body_def Let_def update_rows_def
            split: sum.splits if_splits)
      from cs have range: "int64_min \<le> i \<and> i \<le> int64_max"
        by (auto simp: bind_params_edit_fields bind_int_def split: sum.splits if_splits)
      from upd some have "Set_amount None \<notin> set cs"
        and "d' = d\<lparr>expenses :=
                map (\<lambda>r. if e_id r = i then fold assign cs r else r) (expenses d)\<rparr>"
        by (auto simp: update_rows_def split: if_splits)
      with res range False fields cs show ?thesis
        by auto
    qed
  qed
qed

lemma delete_expense_cases:
  assumes "delete_expense f d i = (res, d')"
  shows "(\<exists>m. res = error_result m) \<and> d' = d \<or>
     (res = success_result ''deleted_id'' (PInt i) \<and>
      int64_min \<le> i \<and> i \<le> int64_max \<and>
      (\<exists>r \<in> set (expenses d). e_id r = i) \<and>
      d' = d\<lparr>expenses := filter (\<lambda>r. e_id r \<noteq> i) (expenses d)\<rparr>)"
proof (cases "\<forall>r \<in> set (expenses d). e_id r \<noteq> i")
  case True
  then have "delete_rows d (\<lambda>r. e_id r = i) = (0, d)"
    by (simp add: delete_rows_def filter_id_absent filter_neq_absent)
  with assms show ?thesis
    by (auto simp: delete_expense_def delete_expense_body_def not_found_def bind_int_def
        split: sum.splits if_splits)
next
  case False
  then have "filter (\<lambda>r. e_id r = i) (expenses d) \<noteq> []"
    using filter_id_empty by blast
  with assms False show ?thesis
    by (auto simp: delete_expense_def delete_expense_body_def bind_int_def delete_rows_def
        split: sum.splits if_splits)
qed

subsection \<open>What \<^verbatim>\<open>init_db\<close> did\<close>

lemma init_db_success:
  assumes "top_rowid d < int64_max"
  shows "init_db No_fault d =
     Inr \<lparr>expenses = filter (\<lambda>r. e_category r \<noteq> ''test'') (expenses d),
          sqlite_sequence = top_rowid d + 1\<rparr>"
  using assms
  by (simp add: init_db_def connect_def run_statement_def insert_row_def Let_def
      delete_rows_def real_affinity_def)

lemma init_db_Inr:
  assumes "init_db f d = Inr d'"
  shows "top_rowid d < int64_max \<and>
     d' = \<lparr>expenses = filter (\<lambda>r. e_category r \<noteq> ''test'') (expenses d),
           sqlite_sequence = top_rowid d + 1\<rparr>"
  using assms
  by (auto simp: init_db_def insert_row_def Let_def delete_rows_def real_affinity_def
      split: sum.splits if_splits)

subsection \<open>The invariant\<close>

lemma well_formed_append:
  assumes "well_formed d" and "top_rowid d < int64_max"
  shows "well_formed \<lparr>expenses = expenses d @ [new\<lparr>e_id := top_rowid d + 1\<rparr>],
                      sqlite_sequence = top_rowid d + 1\<rparr>"
proof -
  have top: "top_rowid d = sqlite_sequence d"
    using assms(1) by (rule top_rowid_wf)
  have below: "\<forall>r \<in> set (expenses d). e_id r < sqlite_sequence d + 1"
    using assms(1) by (auto simp: well_formed_def list_all_iff)
  show ?thesis
    using assms below
    by (auto simp: well_formed_def top sorted_wrt_append list_all_iff)
qed

lemma well_formed_filter:
  assumes "well_formed d"
  shows "well_formed (d\<lparr>expenses := filter P (expenses d)\<rparr>)"
proof -
  have "sorted_wrt (<) (map e_id (filter P (expenses d)))"
    using assms sorted_wrt_filter [of "\<lambda>a b. e_id a < e_id b" "expenses d" P]
    by (simp add: well_formed_def sorted_wrt_map)
  with assms show ?thesis
    by (auto simp: well_formed_def list_all_iff)
qed

lemma well_formed_add_expense:
  assumes "well_formed d"
  shows "well_formed (snd (add_expense f d date amount category subcategory note))"
proof -
  obtain res d' where r: "add_expense f d date amount category subcategory note = (res, d')"
    by (cases "add_expense f d date amount category subcategory note")
  from add_expense_cases [OF r] show ?thesis
  proof
    assume "\<exists>m. res = error_result m \<and> d' = d"
    with r assms show ?thesis by auto
  next
    assume ok: "top_rowid d < int64_max \<and>
      res = success_result ''id'' (PInt (top_rowid d + 1)) \<and>
      (\<exists>dt x ct. date = Some dt \<and> amount_value amount = Inr (Some x) \<and> category = Some ct \<and>
        d' = \<lparr>expenses = expenses d @
               [\<lparr>e_id = top_rowid d + 1, e_date = dt, e_amount = x, e_category = ct,
                 e_subcategory = param (Some '''') subcategory,
                 e_note = param (Some '''') note\<rparr>],
              sqlite_sequence = top_rowid d + 1\<rparr>)"
    then obtain dt x ct where d': "d' = \<lparr>expenses = expenses d @
               [\<lparr>e_id = top_rowid d + 1, e_date = dt, e_amount = x, e_category = ct,
                 e_subcategory = param (Some '''') subcategory,
                 e_note = param (Some '''') note\<rparr>],
              sqlite_sequence = top_rowid d + 1\<rparr>"
      by blast
    from ok have free: "top_rowid d < int64_max" by simp
    from well_formed_append [OF assms free, of "\<lparr>e_id = 0, e_date = dt, e_amount = x,
        e_category = ct, e_subcategory = param (Some '''') subcategory,
        e_note = param (Some '''') note\<rparr>"]
    show ?thesis by (simp add: r d')
  qed
qed

lemma well_formed_ids:
  "well_formed d \<longleftrightarrow>
     sorted_wrt (<) (map e_id (expenses d)) \<and>
     list_all (\<lambda>i. 1 \<le> i \<and> i \<le> sqlite_sequence d) (map e_id (expenses d)) \<and>
     0 \<le> sqlite_sequence d \<and> sqlite_sequence d \<le> int64_max"
  by (simp add: well_formed_def list.pred_map comp_def)

lemma well_formed_edit_expense:
  assumes "well_formed d"
  shows "well_formed (snd (edit_expense f d i date amount category subcategory note))"
proof -
  obtain res d' where r: "edit_expense f d i date amount category subcategory note = (res, d')"
    by (cases "edit_expense f d i date amount category subcategory note")
  have "well_formed
      (d\<lparr>expenses := map (\<lambda>r. if e_id r = i then fold assign cs r else r) (expenses d)\<rparr>)"
    for cs
  proof -
    let ?d = "d\<lparr>expenses :=
        map (\<lambda>r. if e_id r = i then fold assign cs r else r) (expenses d)\<rparr>"
    have ids: "map e_id (expenses ?d) = map e_id (expenses d)"
      by (simp add: map_assign_ids del: map_map)
    have seq: "sqlite_sequence ?d = sqlite_sequence d"
      by simp
    show "well_formed ?d"
      using assms by (simp only: well_formed_ids ids seq)
  qed
  with edit_expense_cases [OF r] assms show ?thesis
    by (auto simp: r)
qed

lemma well_formed_delete_expense:
  assumes "well_formed d"
  shows "well_formed (snd (delete_expense f d i))"
proof -
  obtain res d' where r: "delete_expense f d i = (res, d')"
    by (cases "delete_expense f d i")
  from delete_expense_cases [OF r] assms well_formed_filter [OF assms, of "\<lambda>r. e_id r \<noteq> i"]
  show ?thesis by (auto simp: r)
qed

lemma well_formed_init_db:
  assumes "well_formed d" and "init_db f d = Inr d'"
  shows "well_formed d'"
proof -
  from init_db_Inr [OF assms(2)]
  have free: "top_rowid d < int64_max"
    and d': "d' = \<lparr>expenses = filter (\<lambda>r. e_category r \<noteq> ''test'') (expenses d),
           sqlite_sequence = top_rowid d + 1\<rparr>"
    by simp_all
  have top: "top_rowid d = sqlite_sequence d"
    using assms(1) by (rule top_rowid_wf)
  have "well_formed (d\<lparr>expenses := filter (\<lambda>r. e_category r \<noteq> ''test'') (expenses d)\<rparr>)"
    using assms(1) by (rule well_formed_filter)
  then show ?thesis
    using free by (auto simp: d' top well_formed_def list_all_iff)
qed

lemma well_formed_exec: "well_formed d \<Longrightarrow> well_formed (exec d c)"
proof -
  assume w: "well_formed d"
  obtain f k where c: "c = (f, k)" by (cases c)
  show ?thesis
  proof (cases k)
    case Init_db
    with w c show ?thesis
      by (auto simp: well_formed_init_db split: sum.splits)
  qed (use w c in \<open>simp_all add: well_formed_add_expense well_formed_edit_expense
        well_formed_delete_expense\<close>)
qed

lemma well_formed_run: "well_formed d \<Longrightarrow> well_formed (run d calls)"
  unfolding run_def
  by (induction calls arbitrary: d) (simp_all add: well_formed_exec)

lemma sequence_exec: "sqlite_sequence d \<le> sqlite_sequence (exec d c)"
proof -
  obtain f k where c: "c = (f, k)" by (cases c)
  show ?thesis
  proof (cases k)
    case Init_db
    show ?thesis
    proof (cases "init_db f d")
      case (Inl e)
      with c Init_db show ?thesis by simp
    next
      case (Inr d')
      from init_db_Inr [OF Inr] top_rowid_ge_sequence [of d] c Init_db Inr
      show ?thesis by simp
    qed
  next
    case (Add_expense date amount category subcategory nt)
    obtain res d' where r: "add_expense f d date amount category subcategory nt = (res, d')"
      by (cases "add_expense f d date amount category subcategory nt")
    from add_expense_cases [OF r] top_rowid_ge_sequence [of d] c Add_expense r
    show ?thesis by auto
  next
    case (Edit_expense i date amount category subcategory nt)
    obtain res d' where r: "edit_expense f d i date amount category subcategory nt = (res, d')"
      by (cases "edit_expense f d i date amount category subcategory nt")
    from edit_expense_cases [OF r] c Edit_expense r
    show ?thesis by auto
  next
    case (Delete_expense i)
    obtain res d' where r: "delete_expense f d i = (res, d')"
      by (cases "delete_expense f d i")
    from delete_expense_cases [OF r] c Delete_expense r
    show ?thesis by auto
  qed (use c in simp_all)
qed

lemma sequence_run: "sqlite_sequence d \<le> sqlite_sequence (run d calls)"
  unfolding run_def
proof (induction calls arbitrary: d)
  case Nil
  show ?case by simp
next
  case (Cons c calls)
  have "sqlite_sequence d \<le> sqlite_sequence (exec d c)"
    by (rule sequence_exec)
  also have "\<dots> \<le> sqlite_sequence (foldl exec (exec d c) calls)"
    by (rule Cons.IH)
  finally show ?case by simp
qed

subsection \<open>Ids that no record has\<close>

lemma edit_fields_supplied:
  assumes "date \<noteq> None \<or> amount \<noteq> None \<or> category \<noteq> None \<or> subcategory \<noteq> None \<or>
      note \<noteq> None"
  shows "edit_fields date amount category subcategory note \<noteq> []"
  using assms by (auto simp: edit_fields_def)

lemma bind_int_out_of_range:
  assumes "i < int64_min \<or> int64_max < i"
  shows "bind_int i = Inl (OverflowError ''Python int too large to convert to SQLite INTEGER'')"
  using assms by (auto simp: bind_int_def)

lemma bind_params_in_range:
  assumes "int64_min \<le> i" and "i \<le> int64_max"
    and "\<forall>n. amount = Some (Py_int n) \<longrightarrow> int64_min \<le> n \<and> n \<le> int64_max"
  shows "\<exists>cs. bind_params (edit_fields date amount category subcategory note) i = Inr cs"
proof (cases amount)
  case None
  with assms(1,2) show ?thesis
    by (simp add: bind_params_edit_fields bind_int_def)
next
  case (Some a)
  have "\<exists>x. amount_value (Some a) = Inr x"
  proof (cases a)
    case (Py_int n)
    with assms(3) Some show ?thesis
      by (simp add: amount_value_int)
  next
    case (Py_float x)
    then show ?thesis
      by (simp add: amount_value_float)
  next
    case Py_nan
    then show ?thesis
      by (simp add: amount_value_nan)
  qed
  then obtain x where "amount_value (Some a) = Inr x" ..
  with Some assms(1,2) show ?thesis
    by (simp add: bind_params_edit_fields bind_int_def)
qed

lemma bind_params_id_out_of_range:
  assumes "i < int64_min \<or> int64_max < i"
  shows "bind_params (edit_fields date amount category subcategory note) i =
     Inl (OverflowError ''Python int too large to convert to SQLite INTEGER'')"
proof (cases amount)
  case None
  with assms show ?thesis
    by (simp add: bind_params_edit_fields bind_int_out_of_range)
next
  case (Some a)
  from amount_value_cases [of "Some a"] Some assms show ?thesis
    by (auto simp: bind_params_edit_fields bind_int_out_of_range)
qed

lemma bind_params_amount_out_of_range:
  assumes "n < int64_min \<or> int64_max < n"
  shows "bind_params (edit_fields date (Some (Py_int n)) category subcategory note) i =
     Inl (OverflowError ''Python int too large to convert to SQLite INTEGER'')"
  using assms by (simp add: bind_params_edit_fields amount_value_int_out_of_range)

text \<open>
  C6, as the code has it. \<^verbatim>\<open>execute\<close> binds every parameter before the statement runs,
  and the driver refuses an integer outside the signed 64-bit range. For an id in that
  range that no stored record has, and when the environment raises nothing:
  \<^verbatim>\<open>get_expense\<close> returns the not-found error; \<^verbatim>\<open>edit_expense\<close> with at least one field,
  and with an amount (if one is supplied) that is a float or an integer in that range,
  returns the not-found error and leaves the store as it was; and so does
  \<^verbatim>\<open>delete_expense\<close>. For an id outside the range the three calls fail too and leave the
  store as it was, with the message of the driver's \<^verbatim>\<open>OverflowError\<close> in place of the
  not-found message; and so does \<^verbatim>\<open>edit_expense\<close> on any id with an integer amount
  outside the range.
\<close>

theorem absent_id_not_found:
  "(int64_min \<le> i \<and> i \<le> int64_max \<and> (\<forall>r \<in> set (expenses d). e_id r \<noteq> i) \<longrightarrow>
      get_expense No_fault d i = not_found i \<and>
      ((date \<noteq> None \<or> amount \<noteq> None \<or> category \<noteq> None \<or> subcategory \<noteq> None \<or>
        note \<noteq> None) \<and>
       (\<forall>n. amount = Some (Py_int n) \<longrightarrow> int64_min \<le> n \<and> n \<le> int64_max) \<longrightarrow>
         edit_expense No_fault d i date amount category subcategory note = (not_found i, d)) \<and>
      delete_expense No_fault d i = (not_found i, d)) \<and>
   (i < int64_min \<or> int64_max < i \<longrightarrow>
      get_expense No_fault d i =
        error_result ''Python int too large to convert to SQLite INTEGER'' \<and>
      (date \<noteq> None \<or> amount \<noteq> None \<or> category \<noteq> None \<or> subcategory \<noteq> None \<or>
       note \<noteq> None \<longrightarrow>
         edit_expense No_fault d i date amount category subcategory note =
           (error_result ''Python int too large to convert to SQLite INTEGER'', d)) \<and>
      delete_expense No_fault d i =
        (error_result ''Python int too large to convert to SQLite INTEGER'', d)) \<and>
   (n < int64_min \<or> int64_max < n \<longrightarrow>
      edit_expense No_fault d i date (Some (Py_int n)) category subcategory note =
        (error_result ''Python int too large to convert to SQLite INTEGER'', d))"
proof (intro conjI impI)
  assume "int64_min \<le> i \<and> i \<le> int64_max \<and> (\<forall>r \<in> set (expenses d). e_id r \<noteq> i)"
  then show "get_expense No_fault d i = not_found i"
    by (simp add: get_expense_absent)
next
  assume absent: "int64_min \<le> i \<and> i \<le> int64_max \<and> (\<forall>r \<in> set (expenses d). e_id r \<noteq> i)"
    and supplied: "(date \<noteq> None \<or> amount \<noteq> None \<or> category \<noteq> None \<or> subcategory \<noteq> None \<or>
        note \<noteq> None) \<and>
       (\<forall>n. amount = Some (Py_int n) \<longrightarrow> int64_min \<le> n \<and> n \<le> int64_max)"
  then have fields: "edit_fields date amount category subcategory note \<noteq> []"
    by (intro edit_fields_supplied) simp
  from absent supplied obtain cs
    where cs: "bind_params (edit_fields date amount category subcategory note) i = Inr cs"
    using bind_params_in_range [of i amount date category subcategory "note"] by blast
  have "update_rows d cs i = Inr (0, d)"
    using absent by (intro update_rows_absent) simp
  with fields cs
  show "edit_expense No_fault d i date amount category subcategory note = (not_found i, d)"
    by (simp add: edit_expense_def edit_expense_body_def connect_def run_statement_def Let_def)
next
  assume absent: "int64_min \<le> i \<and> i \<le> int64_max \<and> (\<forall>r \<in> set (expenses d). e_id r \<noteq> i)"
  then have "delete_rows d (\<lambda>r. e_id r = i) = (0, d)"
    by (simp add: delete_rows_def filter_id_absent filter_neq_absent)
  with absent show "delete_expense No_fault d i = (not_found i, d)"
    by (simp add: delete_expense_def delete_expense_body_def connect_def run_statement_def
        bind_int_def)
next
  assume "i < int64_min \<or> int64_max < i"
  then show "get_expense No_fault d i =
      error_result ''Python int too large to convert to SQLite INTEGER''"
    by (simp add: get_expense_def get_expense_body_def connect_def bind_int_out_of_range)
next
  assume out: "i < int64_min \<or> int64_max < i"
    and "date \<noteq> None \<or> amount \<noteq> None \<or> category \<noteq> None \<or> subcategory \<noteq> None \<or>
      note \<noteq> None"
  then have "edit_fields date amount category subcategory note \<noteq> []"
    by (intro edit_fields_supplied)
  with bind_params_id_out_of_range [OF out, of date amount category subcategory "note"]
  show "edit_expense No_fault d i date amount category subcategory note =
      (error_result ''Python int too large to convert to SQLite INTEGER'', d)"
    by (simp add: edit_expense_def edit_expense_body_def connect_def Let_def)
next
  assume "i < int64_min \<or> int64_max < i"
  then show "delete_expense No_fault d i =
      (error_result ''Python int too large to convert to SQLite INTEGER'', d)"
    by (simp add: delete_expense_def delete_expense_body_def connect_def
        bind_int_out_of_range)
next
  assume out: "n < int64_min \<or> int64_max < n"
  have "edit_fields date (Some (Py_int n)) category subcategory note \<noteq> []"
    by (intro edit_fields_supplied) simp
  with bind_params_amount_out_of_range [OF out, of date category subcategory "note" i]
  show "edit_expense No_fault d i date (Some (Py_int n)) category subcategory note =
      (error_result ''Python int too large to convert to SQLite INTEGER'', d)"
    by (simp add: edit_expense_def edit_expense_body_def connect_def Let_def)
qed

theorem absent_id_not_found_witness:
  "int64_min \<le> 7 \<and> 7 \<le> int64_max \<and>
   get_expense No_fault sample_db 7 = not_found 7 \<and>
   edit_expense No_fault sample_db 7 None (Some (Py_float (Finite 12))) None None None =
     (not_found 7, sample_db) \<and>
   edit_expense No_fault sample_db 7 None (Some (Py_int 12)) None None (Some ''x'') =
     (not_found 7, sample_db) \<and>
   delete_expense No_fault sample_db 7 = (not_found 7, sample_db) \<and>
   int64_max < 9223372036854775808 \<and>
   edit_expense No_fault sample_db 9223372036854775808 None (Some (Py_float (Finite 12)))
       None None None =
     (error_result ''Python int too large to convert to SQLite INTEGER'', sample_db) \<and>
   delete_expense No_fault sample_db 9223372036854775808 =
     (error_result ''Python int too large to convert to SQLite INTEGER'', sample_db) \<and>
   edit_expense No_fault sample_db 7 None (Some (Py_int 9223372036854775808)) None None None =
     (error_result ''Python int too large to convert to SQLite INTEGER'', sample_db)"
proof -
  have lo: "int64_min \<le> 7" and hi: "7 \<le> int64_max"
    and out: "int64_max < 9223372036854775808"
    by (simp_all add: int64_min_def int64_max_def)
  have absent: "\<forall>r \<in> set (expenses sample_db). e_id r \<noteq> 7"
    by (simp add: sample_db_def)
  have float: "((None::string option) \<noteq> None \<or> Some (Py_float (Finite 12)) \<noteq> None \<or>
      (None::string option) \<noteq> None \<or> (None::string option) \<noteq> None \<or>
      (None::string option) \<noteq> None) \<and>
      (\<forall>n. Some (Py_float (Finite 12)) = Some (Py_int n) \<longrightarrow> int64_min \<le> n \<and> n \<le> int64_max)"
    by simp
  have int: "((None::string option) \<noteq> None \<or> Some (Py_int 12) \<noteq> None \<or>
      (None::string option) \<noteq> None \<or> (None::string option) \<noteq> None \<or>
      Some ''x'' \<noteq> None) \<and>
      (\<forall>n. Some (Py_int 12) = Some (Py_int n) \<longrightarrow> int64_min \<le> n \<and> n \<le> int64_max)"
    by (simp add: int64_min_def int64_max_def)
  have supplied: "(None::string option) \<noteq> None \<or> Some (Py_float (Finite 12)) \<noteq> None \<or>
      (None::string option) \<noteq> None \<or> (None::string option) \<noteq> None \<or>
      (None::string option) \<noteq> None"
    by simp
  note inside = absent_id_not_found
      [THEN conjunct1, THEN mp, OF conjI [OF lo conjI [OF hi absent]]]
  note outside = absent_id_not_found
      [THEN conjunct2, THEN conjunct1, THEN mp, OF disjI2 [OF out]]
  note amount_outside = absent_id_not_found
      [THEN conjunct2, THEN conjunct2, THEN mp, OF disjI2 [OF out]]
  have "get_expense No_fault sample_db 7 = not_found 7"
    by (rule inside [THEN conjunct1])
  moreover have "edit_expense No_fault sample_db 7 None (Some (Py_float (Finite 12))) None
      None None = (not_found 7, sample_db)"
    by (rule inside [THEN conjunct2, THEN conjunct1, THEN mp, OF float])
  moreover have "edit_expense No_fault sample_db 7 None (Some (Py_int 12)) None None
      (Some ''x'') = (not_found 7, sample_db)"
    by (rule inside [THEN conjunct2, THEN conjunct1, THEN mp, OF int])
  moreover have "delete_expense No_fault sample_db 7 = (not_found 7, sample_db)"
    by (rule inside [THEN conjunct2, THEN conjunct2])
  moreover have "edit_expense No_fault sample_db 9223372036854775808 None
      (Some (Py_float (Finite 12))) None None None =
      (error_result ''Python int too large to convert to SQLite INTEGER'', sample_db)"
    by (rule outside [THEN conjunct2, THEN conjunct1, THEN mp, OF supplied])
  moreover have "delete_expense No_fault sample_db 9223372036854775808 =
      (error_result ''Python int too large to convert to SQLite INTEGER'', sample_db)"
    by (rule outside [THEN conjunct2, THEN conjunct2])
  moreover have "edit_expense No_fault sample_db 7 None (Some (Py_int 9223372036854775808))
      None None None =
      (error_result ''Python int too large to convert to SQLite INTEGER'', sample_db)"
    by (rule amount_outside)
  ultimately show ?thesis
    using lo hi out by simp
qed

text \<open>
  C6 as the specification states it fails for an integer that is not an SQLite integer:
  \<^verbatim>\<open>get_expense(2**63)\<close> on the empty store fails while the id is bound to the
  statement, and the message is the driver's, not the not-found one.
\<close>

theorem get_expense_out_of_range_counterexample:
  "get_expense No_fault empty_db 9223372036854775808 =
     error_result ''Python int too large to convert to SQLite INTEGER'' \<and>
   get_expense No_fault empty_db 9223372036854775808 \<noteq> not_found 9223372036854775808"
proof -
  have "get_expense No_fault empty_db 9223372036854775808 =
     error_result ''Python int too large to convert to SQLite INTEGER''"
    by (simp add: get_expense_def get_expense_body_def connect_def bind_int_def
        int64_max_def int64_min_def)
  moreover have "error_result ''Python int too large to convert to SQLite INTEGER'' \<noteq>
      not_found 9223372036854775808"
    by (simp add: not_found_def error_result_def)
  ultimately show ?thesis by simp
qed

subsection \<open>Partial update\<close>



lemma well_formed_sample_db: "well_formed sample_db"
  by (simp add: well_formed_def sample_db_def int64_max_def)

lemma run_sample_calls: "run empty_db sample_calls = sample_db"
proof -
  have "amount_value (Some (Py_int 100)) = Inr (Some (Finite 100))"
    using amount_value_small_int [of 100] by simp
  then show ?thesis
    by (simp add: run_def sample_calls_def sample_db_def empty_db_def init_db_def
        add_expense_def add_expense_body_def connect_def run_statement_def insert_row_def
        delete_rows_def top_rowid_def int64_max_def Let_def amount_value_float
        real_affinity_def)
qed


subsection \<open>Ids are never reused\<close>

lemma add_expense_above_sequence:
  assumes "add_expense f d date amount category subcategory note =
             (success_result ''id'' (PInt j), d')"
  shows "sqlite_sequence d < j \<and> sqlite_sequence d' = j"
  using add_expense_successD [OF assms] top_rowid_ge_sequence [of d] by auto

text \<open>
  C8. In a store the code can have produced: after \<^verbatim>\<open>delete_expense(i)\<close> has succeeded,
  \<^verbatim>\<open>get_expense(i)\<close> returns the not-found error, and after any further history of
  calls (restarts included) an \<^verbatim>\<open>add_expense\<close> that succeeds returns an id greater than
  \<open>i\<close>. Ids increase: an \<^verbatim>\<open>add_expense\<close> that succeeds at any later time returns an id
  greater than the one an earlier \<^verbatim>\<open>add_expense\<close> returned.
\<close>

theorem ids_never_reused:
  assumes "well_formed d"
  shows "(delete_expense f d i = (success_result ''deleted_id'' (PInt i), d1) \<longrightarrow>
          get_expense No_fault d1 i = not_found i \<and>
          (add_expense f' (run d1 calls) date amount category subcategory note =
             (success_result ''id'' (PInt j), d2) \<longrightarrow> i < j)) \<and>
         (add_expense f d date0 amount0 category0 subcategory0 note0 =
            (success_result ''id'' (PInt k), d3) \<longrightarrow>
          add_expense f' (run d3 calls) date amount category subcategory note =
            (success_result ''id'' (PInt j), d2) \<longrightarrow> k < j)"
proof (intro conjI impI)
  assume deleted: "delete_expense f d i = (success_result ''deleted_id'' (PInt i), d1)"
  from delete_expense_cases [OF deleted]
  have range: "int64_min \<le> i" "i \<le> int64_max"
    and stored: "\<exists>r \<in> set (expenses d). e_id r = i"
    and d1: "d1 = d\<lparr>expenses := filter (\<lambda>r. e_id r \<noteq> i) (expenses d)\<rparr>"
    by (auto simp: error_not_success [symmetric])
  have "\<forall>r \<in> set (expenses d1). e_id r \<noteq> i"
    by (simp add: d1)
  with range show "get_expense No_fault d1 i = not_found i"
    by (rule get_expense_absent)
  assume added: "add_expense f' (run d1 calls) date amount category subcategory note =
      (success_result ''id'' (PInt j), d2)"
  have "i \<le> sqlite_sequence d"
    using assms stored by (auto simp: well_formed_def list_all_iff)
  also have "sqlite_sequence d = sqlite_sequence d1"
    by (simp add: d1)
  also have "sqlite_sequence d1 \<le> sqlite_sequence (run d1 calls)"
    by (rule sequence_run)
  also have "sqlite_sequence (run d1 calls) < j"
    using add_expense_above_sequence [OF added] by simp
  finally show "i < j" .
next
  assume first: "add_expense f d date0 amount0 category0 subcategory0 note0 =
      (success_result ''id'' (PInt k), d3)"
    and later: "add_expense f' (run d3 calls) date amount category subcategory note =
      (success_result ''id'' (PInt j), d2)"
  have "k = sqlite_sequence d3"
    using add_expense_above_sequence [OF first] by simp
  also have "sqlite_sequence d3 \<le> sqlite_sequence (run d3 calls)"
    by (rule sequence_run)
  also have "sqlite_sequence (run d3 calls) < j"
    using add_expense_above_sequence [OF later] by simp
  finally show "k < j" .
qed

theorem ids_never_reused_witness:
  "well_formed sample_db \<and>
   delete_expense No_fault sample_db 4 =
     (success_result ''deleted_id'' (PInt 4),
      \<lparr>expenses =
        [\<lparr>e_id = 2, e_date = ''2024-01-05'', e_amount = Finite 10, e_category = ''Food'',
          e_subcategory = Some '''', e_note = Some ''''\<rparr>,
         \<lparr>e_id = 3, e_date = ''2024-01-10'', e_amount = Finite 5.5, e_category = ''Food'',
          e_subcategory = Some '''', e_note = Some ''''\<rparr>],
       sqlite_sequence = 4\<rparr>) \<and>
   get_expense No_fault
      \<lparr>expenses =
        [\<lparr>e_id = 2, e_date = ''2024-01-05'', e_amount = Finite 10, e_category = ''Food'',
          e_subcategory = Some '''', e_note = Some ''''\<rparr>,
         \<lparr>e_id = 3, e_date = ''2024-01-10'', e_amount = Finite 5.5, e_category = ''Food'',
          e_subcategory = Some '''', e_note = Some ''''\<rparr>],
       sqlite_sequence = 4\<rparr> 4 = not_found 4 \<and>
   fst (add_expense No_fault
      (run \<lparr>expenses =
             [\<lparr>e_id = 2, e_date = ''2024-01-05'', e_amount = Finite 10,
               e_category = ''Food'', e_subcategory = Some '''', e_note = Some ''''\<rparr>,
              \<lparr>e_id = 3, e_date = ''2024-01-10'', e_amount = Finite 5.5,
               e_category = ''Food'', e_subcategory = Some '''', e_note = Some ''''\<rparr>],
            sqlite_sequence = 4\<rparr>
         [(No_fault, Init_db)])
      (Some ''2024-03-01'') (Some (Py_float (Finite 3))) (Some ''Food'') Omitted Omitted) =
     success_result ''id'' (PInt 6) \<and>
   (4::int) < 6"
proof -
  let ?d1 = "\<lparr>expenses =
        [\<lparr>e_id = 2, e_date = ''2024-01-05'', e_amount = Finite 10, e_category = ''Food'',
          e_subcategory = Some '''', e_note = Some ''''\<rparr>,
         \<lparr>e_id = 3, e_date = ''2024-01-10'', e_amount = Finite 5.5, e_category = ''Food'',
          e_subcategory = Some '''', e_note = Some ''''\<rparr>],
       sqlite_sequence = 4\<rparr>"
  let ?d2 = "\<lparr>expenses =
        [\<lparr>e_id = 2, e_date = ''2024-01-05'', e_amount = Finite 10, e_category = ''Food'',
          e_subcategory = Some '''', e_note = Some ''''\<rparr>,
         \<lparr>e_id = 3, e_date = ''2024-01-10'', e_amount = Finite 5.5, e_category = ''Food'',
          e_subcategory = Some '''', e_note = Some ''''\<rparr>,
         \<lparr>e_id = 6, e_date = ''2024-03-01'', e_amount = Finite 3, e_category = ''Food'',
          e_subcategory = Some '''', e_note = Some ''''\<rparr>],
       sqlite_sequence = 6\<rparr>"
  have deleted: "delete_expense No_fault sample_db 4 =
      (success_result ''deleted_id'' (PInt 4), ?d1)"
    by (simp add: delete_expense_def delete_expense_body_def connect_def run_statement_def
        bind_int_def delete_rows_def sample_db_def int64_max_def int64_min_def)
  have restarted: "run ?d1 [(No_fault, Init_db)] =
      \<lparr>expenses =
        [\<lparr>e_id = 2, e_date = ''2024-01-05'', e_amount = Finite 10, e_category = ''Food'',
          e_subcategory = Some '''', e_note = Some ''''\<rparr>,
         \<lparr>e_id = 3, e_date = ''2024-01-10'', e_amount = Finite 5.5, e_category = ''Food'',
          e_subcategory = Some '''', e_note = Some ''''\<rparr>],
       sqlite_sequence = 5\<rparr>"
    by (simp add: run_def init_db_def connect_def run_statement_def insert_row_def
        delete_rows_def top_rowid_def int64_max_def Let_def real_affinity_def)
  have added: "add_expense No_fault (run ?d1 [(No_fault, Init_db)])
      (Some ''2024-03-01'') (Some (Py_float (Finite 3))) (Some ''Food'') Omitted Omitted =
      (success_result ''id'' (PInt 6), ?d2)"
    unfolding restarted
    by (simp add: add_expense_def add_expense_body_def connect_def run_statement_def
        insert_row_def top_rowid_def int64_max_def Let_def amount_value_float)
  note after_delete = ids_never_reused
    [OF well_formed_sample_db, THEN conjunct1, THEN mp, OF deleted]
  have "get_expense No_fault ?d1 4 = not_found 4"
    by (rule after_delete [THEN conjunct1])
  moreover have "(4::int) < 6"
    by (rule after_delete [THEN conjunct2, THEN mp, OF added])
  ultimately show ?thesis
    using well_formed_sample_db deleted added by simp
qed

subsection \<open>Start-up\<close>

text \<open>
  C10. \<^verbatim>\<open>init_db\<close> ends with \<^verbatim>\<open>DELETE FROM expenses WHERE category = 'test'\<close>: whenever it
  completes, the table holds exactly the earlier rows whose category is not \<^verbatim>\<open>test\<close>,
  unchanged and in their order, so every row with that category is gone, whoever
  created it. It completes when the environment raises nothing and a rowid is left for
  the sentinel row.
\<close>

theorem init_db_deletes_test_rows:
  "(init_db f d = Inr d' \<longrightarrow>
      expenses d' = filter (\<lambda>r. e_category r \<noteq> ''test'') (expenses d)) \<and>
   (top_rowid d < int64_max \<longrightarrow>
      init_db No_fault d =
        Inr \<lparr>expenses = filter (\<lambda>r. e_category r \<noteq> ''test'') (expenses d),
             sqlite_sequence = top_rowid d + 1\<rparr>)"
proof (intro conjI impI)
  assume "init_db f d = Inr d'"
  from init_db_Inr [OF this]
  show "expenses d' = filter (\<lambda>r. e_category r \<noteq> ''test'') (expenses d)"
    by simp
next
  assume "top_rowid d < int64_max"
  then show "init_db No_fault d =
        Inr \<lparr>expenses = filter (\<lambda>r. e_category r \<noteq> ''test'') (expenses d),
             sqlite_sequence = top_rowid d + 1\<rparr>"
    by (rule init_db_success)
qed

theorem init_db_deletes_test_rows_witness:
  "top_rowid
     \<lparr>expenses =
        [\<lparr>e_id = 2, e_date = ''2024-01-05'', e_amount = Finite 10, e_category = ''test'',
          e_subcategory = Some ''mine'', e_note = Some ''''\<rparr>,
         \<lparr>e_id = 3, e_date = ''2024-01-10'', e_amount = Finite 5, e_category = ''Test'',
          e_subcategory = Some '''', e_note = None\<rparr>],
      sqlite_sequence = 3\<rparr> < int64_max \<and>
   init_db No_fault
     \<lparr>expenses =
        [\<lparr>e_id = 2, e_date = ''2024-01-05'', e_amount = Finite 10, e_category = ''test'',
          e_subcategory = Some ''mine'', e_note = Some ''''\<rparr>,
         \<lparr>e_id = 3, e_date = ''2024-01-10'', e_amount = Finite 5, e_category = ''Test'',
          e_subcategory = Some '''', e_note = None\<rparr>],
      sqlite_sequence = 3\<rparr> =
   Inr \<lparr>expenses =
          [\<lparr>e_id = 3, e_date = ''2024-01-10'', e_amount = Finite 5, e_category = ''Test'',
            e_subcategory = Some '''', e_note = None\<rparr>],
        sqlite_sequence = 4\<rparr>"
proof -
  let ?d = "\<lparr>expenses =
        [\<lparr>e_id = 2, e_date = ''2024-01-05'', e_amount = Finite 10, e_category = ''test'',
          e_subcategory = Some ''mine'', e_note = Some ''''\<rparr>,
         \<lparr>e_id = 3, e_date = ''2024-01-10'', e_amount = Finite 5, e_category = ''Test'',
          e_subcategory = Some '''', e_note = None\<rparr>],
      sqlite_sequence = 3\<rparr>"
  have top: "top_rowid ?d = 3"
    by (simp add: top_rowid_def)
  then have free: "top_rowid ?d < int64_max"
    by (simp add: int64_max_def)
  have "init_db No_fault ?d =
      Inr \<lparr>expenses = filter (\<lambda>r. e_category r \<noteq> ''test'') (expenses ?d),
           sqlite_sequence = top_rowid ?d + 1\<rparr>"
    by (rule init_db_deletes_test_rows [THEN conjunct2, THEN mp, OF free])
  then show ?thesis
    using free by (simp add: top)
qed

subsection \<open>Queries\<close>

lemma mset_order_by_desc: "mset (order_by_desc k xs) = mset xs"
  by (simp add: order_by_desc_def)

lemma set_order_by_desc: "set (order_by_desc k xs) = set xs"
  by (simp add: order_by_desc_def)

lemma distinct_map_order_by_desc:
  "distinct (map g (order_by_desc k xs)) \<longleftrightarrow> distinct (map g xs)"
proof -
  have "mset (map g (order_by_desc k xs)) = mset (map g xs)"
    by (simp add: mset_order_by_desc)
  then show ?thesis
    by (rule mset_eq_imp_distinct_iff)
qed

lemma sorted_order_by_desc: "sorted_wrt (\<lambda>a b. k b \<le> k a) (order_by_desc k xs)"
proof -
  have "sorted (map k (sort_key k xs))"
    by (rule sorted_sort_key)
  then have "sorted_wrt (\<lambda>a b. k a \<le> k b) (sort_key k xs)"
    by (simp add: sorted_map)
  then show ?thesis
    by (simp add: order_by_desc_def sorted_wrt_rev)
qed

lemma expense_dict:
  "dict_zip expense_cols (expense_row r) =
     PDict [(''id'', PInt (e_id r)), (''date'', PStr (e_date r)),
            (''amount'', PFloat (e_amount r)), (''category'', PStr (e_category r)),
            (''subcategory'', py_text (e_subcategory r)), (''note'', py_text (e_note r))]"
  by (simp add: dict_zip_def expense_cols_def expense_row_def)

lemma list_expenses_rows:
  "list_expenses No_fault d start_date end_date =
     PList (map (\<lambda>r. dict_zip expense_cols (expense_row r))
              (select_between d start_date end_date))"
  by (simp add: list_expenses_def list_expenses_body_def connect_def run_statement_def
      Let_def comp_def)

lemma select_between_sorted:
  "sorted_wrt (\<lambda>a b. e_date b < e_date a \<or> e_date a = e_date b \<and> e_id b \<le> e_id a)
     (select_between d start_date end_date)"
proof -
  have "sorted_wrt (\<lambda>a b. (e_date b, e_id b) \<le> (e_date a, e_id a))
      (select_between d start_date end_date)"
    unfolding select_between_def by (rule sorted_order_by_desc)
  then show ?thesis
    by (rule sorted_wrt_mono_rel [rotated]) (auto simp: less_eq_prod_def)
qed

text \<open>
  C2. For date strings \<open>d1\<close> and \<open>d2\<close> and any store, when the environment raises
  nothing, \<^verbatim>\<open>list_expenses(d1, d2)\<close> returns the list of the dictionaries of the selected
  rows, where the selected rows are exactly the stored rows whose date is between \<open>d1\<close>
  and \<open>d2\<close> inclusive in the byte-wise lexicographic order (each as often as it is
  stored), arranged by date descending and, for equal dates, by id descending. When no
  row's date is in the range the result is the empty list.
\<close>

theorem list_expenses_range_sorted:
  "list_expenses No_fault d (Some d1) (Some d2) =
     PList (map (\<lambda>r. PDict [(''id'', PInt (e_id r)), (''date'', PStr (e_date r)),
                            (''amount'', PFloat (e_amount r)),
                            (''category'', PStr (e_category r)),
                            (''subcategory'', py_text (e_subcategory r)),
                            (''note'', py_text (e_note r))])
              (select_between d (Some d1) (Some d2))) \<and>
   mset (select_between d (Some d1) (Some d2)) =
     filter_mset (\<lambda>r. d1 \<le> e_date r \<and> e_date r \<le> d2) (mset (expenses d)) \<and>
   sorted_wrt (\<lambda>a b. e_date b < e_date a \<or> e_date a = e_date b \<and> e_id b \<le> e_id a)
     (select_between d (Some d1) (Some d2)) \<and>
   ((\<forall>r \<in> set (expenses d). \<not> (d1 \<le> e_date r \<and> e_date r \<le> d2)) \<longrightarrow>
      list_expenses No_fault d (Some d1) (Some d2) = PList [])"
proof (intro conjI impI)
  show "list_expenses No_fault d (Some d1) (Some d2) =
     PList (map (\<lambda>r. PDict [(''id'', PInt (e_id r)), (''date'', PStr (e_date r)),
                            (''amount'', PFloat (e_amount r)),
                            (''category'', PStr (e_category r)),
                            (''subcategory'', py_text (e_subcategory r)),
                            (''note'', py_text (e_note r))])
              (select_between d (Some d1) (Some d2)))"
    by (simp only: list_expenses_rows expense_dict)
next
  show "mset (select_between d (Some d1) (Some d2)) =
     filter_mset (\<lambda>r. d1 \<le> e_date r \<and> e_date r \<le> d2) (mset (expenses d))"
    by (simp add: select_between_def mset_order_by_desc between_def)
next
  show "sorted_wrt (\<lambda>a b. e_date b < e_date a \<or> e_date a = e_date b \<and> e_id b \<le> e_id a)
     (select_between d (Some d1) (Some d2))"
    by (rule select_between_sorted)
next
  assume "\<forall>r \<in> set (expenses d). \<not> (d1 \<le> e_date r \<and> e_date r \<le> d2)"
  then have "filter (\<lambda>r. between (e_date r) (Some d1) (Some d2)) (expenses d) = []"
    by (simp add: filter_empty_conv between_def)
  then have "select_between d (Some d1) (Some d2) = []"
    by (simp add: select_between_def order_by_desc_def)
  then show "list_expenses No_fault d (Some d1) (Some d2) = PList []"
    by (simp add: list_expenses_rows)
qed

theorem list_expenses_range_sorted_witness:
  "list_expenses No_fault sample_db (Some ''2024-01-01'') (Some ''2024-01-31'') =
     PList [PDict [(''id'', PInt 3), (''date'', PStr ''2024-01-10''), (''amount'', PFloat (Finite 5.5)),
                   (''category'', PStr ''Food''), (''subcategory'', PStr ''''),
                   (''note'', PStr '''')],
            PDict [(''id'', PInt 2), (''date'', PStr ''2024-01-05''), (''amount'', PFloat (Finite 10)),
                   (''category'', PStr ''Food''), (''subcategory'', PStr ''''),
                   (''note'', PStr '''')]] \<and>
   list_expenses No_fault sample_db (Some ''2025-01-01'') (Some ''2025-12-31'') = PList []"
proof -
  have selected: "select_between sample_db (Some ''2024-01-01'') (Some ''2024-01-31'') =
      [\<lparr>e_id = 3, e_date = ''2024-01-10'', e_amount = Finite 5.5, e_category = ''Food'',
         e_subcategory = Some '''', e_note = Some ''''\<rparr>,
       \<lparr>e_id = 2, e_date = ''2024-01-05'', e_amount = Finite 10, e_category = ''Food'',
         e_subcategory = Some '''', e_note = Some ''''\<rparr>]"
    by (simp add: select_between_def order_by_desc_def between_def sample_db_def)
  have none: "\<forall>r \<in> set (expenses sample_db).
      \<not> (''2025-01-01'' \<le> e_date r \<and> e_date r \<le> ''2025-12-31'')"
    by (simp add: sample_db_def)
  have "list_expenses No_fault sample_db (Some ''2025-01-01'') (Some ''2025-12-31'') = PList []"
    using list_expenses_range_sorted [of sample_db "''2025-01-01''" "''2025-12-31''"] none
    by blast
  moreover have "list_expenses No_fault sample_db (Some ''2024-01-01'') (Some ''2024-01-31'') =
     PList (map (\<lambda>r. PDict [(''id'', PInt (e_id r)), (''date'', PStr (e_date r)),
                            (''amount'', PFloat (e_amount r)),
                            (''category'', PStr (e_category r)),
                            (''subcategory'', py_text (e_subcategory r)),
                            (''note'', py_text (e_note r))])
              (select_between sample_db (Some ''2024-01-01'') (Some ''2024-01-31'')))"
    by (rule list_expenses_range_sorted [THEN conjunct1])
  ultimately show ?thesis
    by (simp add: selected py_text_def)
qed

subsection \<open>Summaries\<close>

lemma group_by_category_categories:
  "map fst (group_by_category sql_sum rs) = sort (remdups (map e_category rs))"
  by (simp add: group_by_category_def comp_def)

lemma group_by_category_member:
  assumes "g \<in> set (group_by_category sql_sum rs)"
  shows "fst (snd g) = sql_sum (map e_amount (filter (\<lambda>r. e_category r = fst g) rs)) \<and>
         snd (snd g) = length (filter (\<lambda>r. e_category r = fst g) rs)"
  using assms by (auto simp: group_by_category_def)

lemma summary_dict:
  "dict_zip summary_cols (summary_row g) =
     PDict [(''category'', PStr (fst g)), (''total_amount'', py_real (fst (snd g))),
            (''count'', PInt (int (snd (snd g))))]"
  by (cases g) (simp add: dict_zip_def summary_cols_def summary_row_def)

lemma summarize_rows:
  "summarize sql_sum No_fault d start_date end_date category =
     PList (map (\<lambda>g. dict_zip summary_cols (summary_row g))
              (select_summary sql_sum d start_date end_date category))"
  by (simp add: summarize_def summarize_body_def connect_def run_statement_def Let_def comp_def)

lemma select_summary_unfiltered:
  "select_summary sql_sum d (Some d1) (Some d2) None =
     order_by_desc (\<lambda>g. fst (snd g))
       (group_by_category sql_sum
          (filter (\<lambda>r. d1 \<le> e_date r \<and> e_date r \<le> d2) (expenses d)))"
  by (simp add: select_summary_def truthy_def between_def)

text \<open>
  What \<^verbatim>\<open>summarize(d1, d2)\<close> returns, whatever the engine's \<^verbatim>\<open>SUM\<close> computes: the list of
  the dictionaries of the groups, where no two groups have the same category; the
  categories of the groups are exactly the categories of the stored rows whose date is
  between \<open>d1\<close> and \<open>d2\<close> inclusive; a group's \<^verbatim>\<open>total_amount\<close> is the engine's \<^verbatim>\<open>SUM\<close> of
  the amounts of those rows that have its category, taken in rowid order, and its
  \<^verbatim>\<open>count\<close> is their number; and the groups are arranged by \<^verbatim>\<open>total_amount\<close> descending.
  When no row's date is in the range the result is the empty list. How that \<^verbatim>\<open>SUM\<close>
  relates to the sum of the amounts as real numbers is floating-point arithmetic, which
  has no counterpart here.
\<close>

lemma summarize_groups_structure:
  "summarize sql_sum No_fault d (Some d1) (Some d2) None =
     PList (map (\<lambda>g. PDict [(''category'', PStr (fst g)),
                            (''total_amount'', py_real (fst (snd g))),
                            (''count'', PInt (int (snd (snd g))))])
              (select_summary sql_sum d (Some d1) (Some d2) None)) \<and>
   distinct (map fst (select_summary sql_sum d (Some d1) (Some d2) None)) \<and>
   set (map fst (select_summary sql_sum d (Some d1) (Some d2) None)) =
     e_category ` {r \<in> set (expenses d). d1 \<le> e_date r \<and> e_date r \<le> d2} \<and>
   (\<forall>g \<in> set (select_summary sql_sum d (Some d1) (Some d2) None).
      fst (snd g) =
        sql_sum (map e_amount
          (filter (\<lambda>r. d1 \<le> e_date r \<and> e_date r \<le> d2 \<and> e_category r = fst g)
             (expenses d))) \<and>
      snd (snd g) =
        length (filter (\<lambda>r. d1 \<le> e_date r \<and> e_date r \<le> d2 \<and> e_category r = fst g)
          (expenses d))) \<and>
   sorted_wrt (\<lambda>g h. fst (snd h) \<le> fst (snd g))
     (select_summary sql_sum d (Some d1) (Some d2) None) \<and>
   ((\<forall>r \<in> set (expenses d). \<not> (d1 \<le> e_date r \<and> e_date r \<le> d2)) \<longrightarrow>
      summarize sql_sum No_fault d (Some d1) (Some d2) None = PList [])"
proof -
  define rs where "rs = filter (\<lambda>r. d1 \<le> e_date r \<and> e_date r \<le> d2) (expenses d)"
  define gs where "gs = select_summary sql_sum d (Some d1) (Some d2) None"
  have gs: "gs = order_by_desc (\<lambda>g. fst (snd g)) (group_by_category sql_sum rs)"
    by (simp add: gs_def rs_def select_summary_unfiltered)
  have result: "summarize sql_sum No_fault d (Some d1) (Some d2) None =
     PList (map (\<lambda>g. PDict [(''category'', PStr (fst g)),
                            (''total_amount'', py_real (fst (snd g))),
                            (''count'', PInt (int (snd (snd g))))]) gs)"
    by (simp only: summarize_rows summary_dict gs_def)
  have "distinct (map fst (group_by_category sql_sum rs))"
    by (simp add: group_by_category_categories)
  then have dist: "distinct (map fst gs)"
    by (simp add: gs distinct_map_order_by_desc)
  have cats: "set (map fst gs) =
      e_category ` {r \<in> set (expenses d). d1 \<le> e_date r \<and> e_date r \<le> d2}"
  proof -
    have "set (map fst gs) = fst ` set (group_by_category sql_sum rs)"
      by (simp add: gs set_order_by_desc)
    also have "\<dots> = set (map fst (group_by_category sql_sum rs))"
      by simp
    also have "\<dots> = e_category ` set rs"
      by (simp only: group_by_category_categories set_sort set_remdups set_map)
    also have "set rs = {r \<in> set (expenses d). d1 \<le> e_date r \<and> e_date r \<le> d2}"
      by (simp add: rs_def)
    finally show ?thesis .
  qed
  have sums: "\<forall>g \<in> set gs.
      fst (snd g) =
        sql_sum (map e_amount
          (filter (\<lambda>r. d1 \<le> e_date r \<and> e_date r \<le> d2 \<and> e_category r = fst g)
             (expenses d))) \<and>
      snd (snd g) =
        length (filter (\<lambda>r. d1 \<le> e_date r \<and> e_date r \<le> d2 \<and> e_category r = fst g)
          (expenses d))"
  proof
    fix g
    assume "g \<in> set gs"
    then have "g \<in> set (group_by_category sql_sum rs)"
      by (simp add: gs set_order_by_desc)
    from group_by_category_member [OF this]
    show "fst (snd g) =
        sql_sum (map e_amount
          (filter (\<lambda>r. d1 \<le> e_date r \<and> e_date r \<le> d2 \<and> e_category r = fst g)
             (expenses d))) \<and>
      snd (snd g) =
        length (filter (\<lambda>r. d1 \<le> e_date r \<and> e_date r \<le> d2 \<and> e_category r = fst g)
          (expenses d))"
      by (simp add: rs_def conj_assoc)
  qed
  have ordered: "sorted_wrt (\<lambda>g h. fst (snd h) \<le> fst (snd g)) gs"
    unfolding gs by (rule sorted_order_by_desc)
  have empty: "summarize sql_sum No_fault d (Some d1) (Some d2) None = PList []"
    if "\<forall>r \<in> set (expenses d). \<not> (d1 \<le> e_date r \<and> e_date r \<le> d2)"
  proof -
    from that have "rs = []"
      by (simp add: rs_def filter_empty_conv)
    then have "gs = []"
      by (simp add: gs group_by_category_def order_by_desc_def)
    with result show ?thesis by simp
  qed
  from result dist cats sums ordered empty show ?thesis
    unfolding gs_def by blast
qed

subsection \<open>Summaries of one category\<close>

lemma remdups_all_equal:
  assumes "xs \<noteq> []" and "\<forall>x \<in> set xs. x = c"
  shows "remdups xs = [c]"
  using assms
proof (induction xs)
  case Nil
  then show ?case by simp
next
  case (Cons x xs)
  show ?case
  proof (cases "xs = []")
    case True
    with Cons.prems show ?thesis by simp
  next
    case False
    with Cons have "remdups xs = [c]" by simp
    moreover from False Cons.prems have "x \<in> set xs"
      by (cases xs) auto
    ultimately show ?thesis by simp
  qed
qed

lemma group_by_category_single:
  assumes "rs \<noteq> []" and "\<forall>r \<in> set rs. e_category r = c"
  shows "group_by_category sql_sum rs = [(c, sql_sum (map e_amount rs), length rs)]"
proof -
  have "remdups (map e_category rs) = [c]"
    using assms by (intro remdups_all_equal) auto
  moreover have "filter (\<lambda>r. e_category r = c) rs = rs"
    using assms(2) by (simp add: filter_id_conv)
  ultimately show ?thesis
    by (simp add: group_by_category_def)
qed

lemma select_summary_filtered:
  assumes "c \<noteq> []"
  shows "select_summary sql_sum d (Some d1) (Some d2) (Some c) =
     order_by_desc (\<lambda>g. fst (snd g))
       (group_by_category sql_sum
          (filter (\<lambda>r. d1 \<le> e_date r \<and> e_date r \<le> d2 \<and> e_category r = c) (expenses d)))"
  using assms by (simp add: select_summary_def truthy_def between_def conj_assoc)

text \<open>
  C5, as the code has it. \<^verbatim>\<open>if category:\<close> adds the filter only for a category that is
  neither \<^verbatim>\<open>None\<close> nor the empty string. For a non-empty category \<open>c\<close>, date strings
  \<open>d1\<close> and \<open>d2\<close> and any store, when the environment raises nothing,
  \<^verbatim>\<open>summarize(d1, d2, category=c)\<close> returns one group when some stored row has a date
  between \<open>d1\<close> and \<open>d2\<close> and exactly the category \<open>c\<close>, and no group otherwise; the
  group's category is \<open>c\<close>, its total is the engine's \<^verbatim>\<open>SUM\<close> of the amounts of the rows
  with that category in the range, and its count is their number. With the empty string
  as category the call returns what it returns with no category at all.
\<close>

theorem summarize_one_category:
  "(c \<noteq> [] \<longrightarrow>
      summarize sql_sum No_fault d (Some d1) (Some d2) (Some c) =
        (if \<exists>r \<in> set (expenses d). d1 \<le> e_date r \<and> e_date r \<le> d2 \<and> e_category r = c
         then PList
           [PDict [(''category'', PStr c),
                   (''total_amount'', py_real (sql_sum (map e_amount
                      (filter (\<lambda>r. d1 \<le> e_date r \<and> e_date r \<le> d2 \<and> e_category r = c)
                         (expenses d))))),
                   (''count'', PInt (int (length
                      (filter (\<lambda>r. d1 \<le> e_date r \<and> e_date r \<le> d2 \<and> e_category r = c)
                         (expenses d)))))]]
         else PList [])) \<and>
   summarize sql_sum f d start_date end_date (Some '''') =
     summarize sql_sum f d start_date end_date None"
proof (intro conjI impI)
  assume c: "c \<noteq> []"
  define rs where
    "rs = filter (\<lambda>r. d1 \<le> e_date r \<and> e_date r \<le> d2 \<and> e_category r = c) (expenses d)"
  have sel: "select_summary sql_sum d (Some d1) (Some d2) (Some c) =
      order_by_desc (\<lambda>g. fst (snd g)) (group_by_category sql_sum rs)"
    using c by (simp add: select_summary_filtered rs_def)
  show "summarize sql_sum No_fault d (Some d1) (Some d2) (Some c) =
        (if \<exists>r \<in> set (expenses d). d1 \<le> e_date r \<and> e_date r \<le> d2 \<and> e_category r = c
         then PList
           [PDict [(''category'', PStr c),
                   (''total_amount'', py_real (sql_sum (map e_amount
                      (filter (\<lambda>r. d1 \<le> e_date r \<and> e_date r \<le> d2 \<and> e_category r = c)
                         (expenses d))))),
                   (''count'', PInt (int (length
                      (filter (\<lambda>r. d1 \<le> e_date r \<and> e_date r \<le> d2 \<and> e_category r = c)
                         (expenses d)))))]]
         else PList [])"
  proof (cases "rs = []")
    case True
    then have "\<not> (\<exists>r \<in> set (expenses d). d1 \<le> e_date r \<and> e_date r \<le> d2 \<and> e_category r = c)"
      by (simp add: rs_def filter_empty_conv)
    moreover have "select_summary sql_sum d (Some d1) (Some d2) (Some c) = []"
      using True by (simp add: sel group_by_category_def order_by_desc_def)
    ultimately show ?thesis
      by (simp add: summarize_rows)
  next
    case False
    then have some: "\<exists>r \<in> set (expenses d). d1 \<le> e_date r \<and> e_date r \<le> d2 \<and> e_category r = c"
      by (auto simp: rs_def filter_empty_conv)
    have "\<forall>r \<in> set rs. e_category r = c"
      by (simp add: rs_def)
    with False
    have "group_by_category sql_sum rs = [(c, sql_sum (map e_amount rs), length rs)]"
      by (rule group_by_category_single)
    then have "select_summary sql_sum d (Some d1) (Some d2) (Some c) =
        [(c, sql_sum (map e_amount rs), length rs)]"
      by (simp add: sel order_by_desc_def)
    then have "summarize sql_sum No_fault d (Some d1) (Some d2) (Some c) =
        PList [PDict [(''category'', PStr c),
                      (''total_amount'', py_real (sql_sum (map e_amount rs))),
                      (''count'', PInt (int (length rs)))]]"
      by (simp add: summarize_rows summary_dict)
    with some show ?thesis
      by (simp add: rs_def)
  qed
next
  have same: "select_summary sql_sum d start_date end_date (Some '''') =
      select_summary sql_sum d start_date end_date None"
    by (simp add: select_summary_def truthy_def)
  show "summarize sql_sum f d start_date end_date (Some '''') =
      summarize sql_sum f d start_date end_date None"
    unfolding summarize_def summarize_body_def same by (rule refl)
qed

theorem summarize_one_category_witness:
  "''Food'' \<noteq> [] \<and>
   summarize sample_sum No_fault sample_db (Some ''2024-01-01'') (Some ''2024-02-28'')
       (Some ''Food'') =
     PList [PDict [(''category'', PStr ''Food''), (''total_amount'', PFloat (Finite 15.5)),
                   (''count'', PInt 2)]] \<and>
   summarize sample_sum No_fault sample_db (Some ''2024-01-01'') (Some ''2024-02-28'')
       (Some ''food'') =
     PList []"
proof -
  have c1: "''Food'' \<noteq> []" and c2: "''food'' \<noteq> []"
    by simp_all
  note food = summarize_one_category [THEN conjunct1, THEN mp, OF c1,
      of sample_sum sample_db "''2024-01-01''" "''2024-02-28''"]
  note lower_food = summarize_one_category [THEN conjunct1, THEN mp, OF c2,
      of sample_sum sample_db "''2024-01-01''" "''2024-02-28''"]
  have "summarize sample_sum No_fault sample_db (Some ''2024-01-01'') (Some ''2024-02-28'')
      (Some ''Food'') =
     PList [PDict [(''category'', PStr ''Food''), (''total_amount'', PFloat (Finite 15.5)),
                   (''count'', PInt 2)]]"
    unfolding food by (simp add: sample_db_def sample_sum_def py_real_def)
  moreover have "summarize sample_sum No_fault sample_db (Some ''2024-01-01'')
      (Some ''2024-02-28'') (Some ''food'') = PList []"
    unfolding lower_food by (simp add: sample_db_def)
  ultimately show ?thesis
    by simp
qed

text \<open>
  C5 as the specification states it fails for the empty string: on the sample store,
  \<^verbatim>\<open>summarize("2024-01-01", "2024-02-28", category="")\<close> returns two groups, and neither
  has the empty category.
\<close>

theorem summarize_empty_category_counterexample:
  "summarize sample_sum No_fault sample_db (Some ''2024-01-01'') (Some ''2024-02-28'')
       (Some '''') =
     PList [PDict [(''category'', PStr ''Travel''), (''total_amount'', PFloat (Finite 100)),
                   (''count'', PInt 1)],
            PDict [(''category'', PStr ''Food''), (''total_amount'', PFloat (Finite 15.5)),
                   (''count'', PInt 2)]]"
  by (simp add: summarize_def summarize_body_def connect_def run_statement_def
      select_summary_def order_by_desc_def between_def sample_db_def truthy_def
      group_by_category_def dict_zip_def summary_cols_def summary_row_def
      sample_sum_def py_real_def)

subsection \<open>The shape of the results\<close>

lemma get_expense_shape:
  "(\<exists>items. get_expense f d i = success_result ''expense'' (PDict items)) \<or>
   (\<exists>m. get_expense f d i = error_result m)"
  by (auto simp: get_expense_def get_expense_body_def not_found_def dict_zip_def Let_def
      split: sum.splits option.splits)

lemma list_expenses_shape:
  "(\<exists>rs. list_expenses f d start_date end_date =
           PList (map (\<lambda>r. dict_zip expense_cols (expense_row r)) rs)) \<or>
   (\<exists>m. list_expenses f d start_date end_date = error_result m)"
proof (cases "list_expenses_body f d start_date end_date")
  case (Inl e)
  then show ?thesis by (auto simp: list_expenses_def)
next
  case (Inr res)
  then have "res = PList (map (\<lambda>r. dict_zip expense_cols (expense_row r))
      (select_between d start_date end_date))"
    by (auto simp: list_expenses_body_def Let_def comp_def split: sum.splits)
  with Inr show ?thesis by (auto simp: list_expenses_def)
qed

lemma summarize_shape:
  "(\<exists>gs. summarize sql_sum f d start_date end_date category =
           PList (map (\<lambda>g. dict_zip summary_cols (summary_row g)) gs)) \<or>
   (\<exists>m. summarize sql_sum f d start_date end_date category = error_result m)"
proof (cases "summarize_body sql_sum f d start_date end_date category")
  case (Inl e)
  then show ?thesis by (auto simp: summarize_def)
next
  case (Inr res)
  then have "res = PList (map (\<lambda>g. dict_zip summary_cols (summary_row g))
      (select_summary sql_sum d start_date end_date category))"
    by (auto simp: summarize_body_def Let_def comp_def split: sum.splits)
  with Inr show ?thesis by (auto simp: summarize_def)
qed

text \<open>
  C9, as the code has it. Every tool returns a value on every input, store and
  behaviour of the environment: each exception of its body is caught and becomes an
  error dictionary. \<^verbatim>\<open>add_expense\<close>, \<^verbatim>\<open>get_expense\<close>, \<^verbatim>\<open>edit_expense\<close> and
  \<^verbatim>\<open>delete_expense\<close> return a dictionary with the status \<^verbatim>\<open>success\<close> and the payload, or
  with the status \<^verbatim>\<open>error\<close> and a message. \<^verbatim>\<open>list_expenses\<close> and \<^verbatim>\<open>summarize\<close> return
  that error dictionary when they fail; when they succeed they return the bare list of
  row dictionaries, which has no status marker.
\<close>

theorem tools_return_results:
  "((\<exists>k. fst (add_expense f d date amount category subcategory note) =
           success_result ''id'' (PInt k)) \<or>
    (\<exists>m. fst (add_expense f d date amount category subcategory note) = error_result m)) \<and>
   ((\<exists>items. get_expense f d i = success_result ''expense'' (PDict items)) \<or>
    (\<exists>m. get_expense f d i = error_result m)) \<and>
   (fst (edit_expense f d i date amount category subcategory' note') =
      success_result ''updated_id'' (PInt i) \<or>
    (\<exists>m. fst (edit_expense f d i date amount category subcategory' note') =
           error_result m)) \<and>
   (fst (delete_expense f d i) = success_result ''deleted_id'' (PInt i) \<or>
    (\<exists>m. fst (delete_expense f d i) = error_result m)) \<and>
   ((\<exists>rs. list_expenses f d start_date end_date =
            PList (map (\<lambda>r. dict_zip expense_cols (expense_row r)) rs)) \<or>
    (\<exists>m. list_expenses f d start_date end_date = error_result m)) \<and>
   ((\<exists>gs. summarize sql_sum f d start_date end_date category =
            PList (map (\<lambda>g. dict_zip summary_cols (summary_row g)) gs)) \<or>
    (\<exists>m. summarize sql_sum f d start_date end_date category = error_result m)) \<and>
   status (success_result ''id'' v) = Some (PStr ''success'') \<and>
   status (success_result ''expense'' v) = Some (PStr ''success'') \<and>
   status (success_result ''updated_id'' v) = Some (PStr ''success'') \<and>
   status (success_result ''deleted_id'' v) = Some (PStr ''success'') \<and>
   status (error_result m) = Some (PStr ''error'') \<and>
   status (PList vs) = None"
proof -
  obtain r1 d1 where a: "add_expense f d date amount category subcategory note = (r1, d1)"
    by (cases "add_expense f d date amount category subcategory note")
  have added: "(\<exists>k. fst (add_expense f d date amount category subcategory note) =
           success_result ''id'' (PInt k)) \<or>
    (\<exists>m. fst (add_expense f d date amount category subcategory note) = error_result m)"
    using add_expense_cases [OF a] by (auto simp: a)
  obtain r2 d2 where e: "edit_expense f d i date amount category subcategory' note' = (r2, d2)"
    by (cases "edit_expense f d i date amount category subcategory' note'")
  have edited: "fst (edit_expense f d i date amount category subcategory' note') =
      success_result ''updated_id'' (PInt i) \<or>
    (\<exists>m. fst (edit_expense f d i date amount category subcategory' note') =
           error_result m)"
    using edit_expense_cases [OF e] by (auto simp: e)
  obtain r3 d3 where x: "delete_expense f d i = (r3, d3)"
    by (cases "delete_expense f d i")
  have deleted: "fst (delete_expense f d i) = success_result ''deleted_id'' (PInt i) \<or>
    (\<exists>m. fst (delete_expense f d i) = error_result m)"
    using delete_expense_cases [OF x] by (auto simp: x)
  have marks: "status (success_result ''id'' v) = Some (PStr ''success'')"
    "status (success_result ''expense'' v) = Some (PStr ''success'')"
    "status (success_result ''updated_id'' v) = Some (PStr ''success'')"
    "status (success_result ''deleted_id'' v) = Some (PStr ''success'')"
    "status (error_result m) = Some (PStr ''error'')"
    "status (PList vs) = None"
    by (simp_all add: status_def success_result_def error_result_def)
  from added get_expense_shape [of f d i] edited deleted
    list_expenses_shape [of f d start_date end_date]
    summarize_shape [of sql_sum f d start_date end_date category] marks
  show ?thesis by blast
qed

text \<open>
  C9 as the specification states it fails for the two queries: on the sample store
  \<^verbatim>\<open>list_expenses("2024-01-01", "2024-01-31")\<close> succeeds with a list of two
  dictionaries, and the result has no status marker.
\<close>

theorem list_expenses_no_status_counterexample:
  "list_expenses No_fault sample_db (Some ''2024-01-01'') (Some ''2024-01-31'') =
     PList [PDict [(''id'', PInt 3), (''date'', PStr ''2024-01-10''), (''amount'', PFloat (Finite 5.5)),
                   (''category'', PStr ''Food''), (''subcategory'', PStr ''''),
                   (''note'', PStr '''')],
            PDict [(''id'', PInt 2), (''date'', PStr ''2024-01-05''), (''amount'', PFloat (Finite 10)),
                   (''category'', PStr ''Food''), (''subcategory'', PStr ''''),
                   (''note'', PStr '''')]] \<and>
   status (list_expenses No_fault sample_db (Some ''2024-01-01'') (Some ''2024-01-31'')) = None"
  by (simp add: list_expenses_def list_expenses_body_def connect_def run_statement_def
      select_between_def order_by_desc_def between_def sample_db_def dict_zip_def
      expense_cols_def expense_row_def py_text_def status_def)

end
